theory Spec2Isabelle
  imports Main "HOL-Library.Word"
begin

section \<open>Python values, objects and the heap\<close>

text \<open>
  The bridge (\<^verbatim>\<open>examples/alma/priv/alfworld_bridge.py\<close>) and its mock
  (\<^verbatim>\<open>examples/alma/test/support/mock_alfworld_bridge.py\<close>) handle three sorts of
  Python values: the data that \<^verbatim>\<open>json.loads\<close> produces and \<^verbatim>\<open>json.dumps\<close>
  consumes, the batched results of the engine, and the engine's objects, which they only
  touch through attributes and method calls.  Data is modelled by value; every other
  object is a reference \<open>PRef a\<close> into a heap that maps an address to the attribute
  dictionary of the object living there.  A float is the bit pattern of its IEEE-754
  binary64 representation; a character is a code point below 256.
\<close>

type_synonym addr = nat

datatype pyval =
    PNone
  | PBool bool
  | PInt int
  | PFloat "64 word"
  | PStr string
  | PList "pyval list"
  | PTuple "pyval list"
  | PDict "(pyval \<times> pyval) list"
  | PRef addr

type_synonym attrs = "string \<rightharpoonup> pyval"
type_synonym heap = "addr \<Rightarrow> attrs"

text \<open>
  \<^verbatim>\<open>getattr(v, name)\<close>, \<^verbatim>\<open>hasattr(v, name)\<close> and \<^verbatim>\<open>setattr(v, name, x)\<close> for the
  four attribute names the bridge uses (\<^verbatim>\<open>env\<close>, \<^verbatim>\<open>_wrapped_env\<close>,
  \<^verbatim>\<open>game_files\<close>, \<^verbatim>\<open>gameFiles\<close>): data values have none of them, an object has
  those of its attribute dictionary, and assigning to an attribute of an object always
  succeeds (objects have no read-only attributes).
\<close>

definition py_getattr :: "heap \<Rightarrow> pyval \<Rightarrow> string \<Rightarrow> pyval option" where
  "py_getattr h v name = (case v of PRef a \<Rightarrow> h a name | _ \<Rightarrow> None)"

definition py_hasattr :: "heap \<Rightarrow> pyval \<Rightarrow> string \<Rightarrow> bool" where
  "py_hasattr h v name = (py_getattr h v name \<noteq> None)"

definition py_setattr :: "heap \<Rightarrow> pyval \<Rightarrow> string \<Rightarrow> pyval \<Rightarrow> heap" where
  "py_setattr h v name x = (case v of PRef a \<Rightarrow> h(a := (h a)(name \<mapsto> x)) | _ \<Rightarrow> h)"

section \<open>The wrapper-chain traversal \<^verbatim>\<open>set_game_files\<close>\<close>

text \<open>
  \<^verbatim>\<open>
  def set_game_files(env, files):
      e = env
      while e is not None:
          for attr in ("game_files", "gameFiles"):
              if hasattr(e, attr):
                  setattr(e, attr, files)
          e = getattr(e, "env", getattr(e, "_wrapped_env", None))
  \<close>
  \<open>set_attrs\<close> is the inner \<^verbatim>\<open>for\<close> loop, \<open>delegate\<close> the last line of the body.
  The \<^verbatim>\<open>while\<close> loop has no bound, so it is a partial function: \<open>None\<close> is the run
  that never leaves the loop.
\<close>

definition task_attrs :: "string list" where
  "task_attrs = [''game_files'', ''gameFiles'']"

definition set_attr_if_present :: "pyval \<Rightarrow> pyval \<Rightarrow> string \<Rightarrow> heap \<Rightarrow> heap" where
  "set_attr_if_present e files attr h =
     (if py_hasattr h e attr then py_setattr h e attr files else h)"

definition set_attrs :: "heap \<Rightarrow> pyval \<Rightarrow> pyval \<Rightarrow> heap" where
  "set_attrs h e files = fold (set_attr_if_present e files) task_attrs h"

definition delegate :: "heap \<Rightarrow> pyval \<Rightarrow> pyval" where
  "delegate h e =
     (case py_getattr h e ''env'' of
        Some x \<Rightarrow> x
      | None \<Rightarrow> (case py_getattr h e ''_wrapped_env'' of Some x \<Rightarrow> x | None \<Rightarrow> PNone))"

partial_function (option) set_game_files :: "heap \<Rightarrow> pyval \<Rightarrow> pyval \<Rightarrow> heap option" where
  "set_game_files h e files =
     (if e = PNone then Some h
      else set_game_files (set_attrs h e files) (delegate (set_attrs h e files) e) files)"

text \<open>
  The layers of a delegate chain, outermost first, when following \<open>delegate\<close> from \<open>e\<close>
  reaches \<^verbatim>\<open>None\<close> within \<open>n\<close> steps; \<open>None\<close> when it does not.
\<close>

fun layers :: "nat \<Rightarrow> heap \<Rightarrow> pyval \<Rightarrow> pyval list option" where
  "layers n h PNone = Some []"
| "layers 0 h e = None"
| "layers (Suc n) h e = map_option ((#) e) (layers n h (delegate h e))"

definition finite_chain :: "heap \<Rightarrow> pyval \<Rightarrow> bool" where
  "finite_chain h e = (\<exists>n. layers n h e \<noteq> None)"

text \<open>Every task-set attribute that layer \<open>v\<close> has holds \<open>files\<close>.\<close>

definition narrowed :: "heap \<Rightarrow> pyval \<Rightarrow> pyval \<Rightarrow> bool" where
  "narrowed h files v =
     list_all (\<lambda>attr. py_hasattr h v attr \<longrightarrow> py_getattr h v attr = Some files) task_attrs"


section \<open>Python builtins on data\<close>

text \<open>
  An exception is known to the bridge by its class only where it is raised by an operation
  of the bridge itself; whatever a library or the engine raises is \<open>External\<close> with a
  description.  (\<^verbatim>\<open>except Exception\<close> catches all of them.)
\<close>

datatype exn = AttributeError | TypeError | ValueError | IndexError | KeyError | External string

text \<open>Truthiness, as in \<^verbatim>\<open>if game_file:\<close> and \<^verbatim>\<open>bool(dones[0])\<close>.\<close>

fun py_bool :: "pyval \<Rightarrow> bool" where
  "py_bool PNone = False"
| "py_bool (PBool b) = b"
| "py_bool (PInt i) = (i \<noteq> 0)"
| "py_bool (PFloat w) = (w \<noteq> 0 \<and> w \<noteq> 0x8000000000000000)"
| "py_bool (PStr s) = (s \<noteq> [])"
| "py_bool (PList xs) = (xs \<noteq> [])"
| "py_bool (PTuple xs) = (xs \<noteq> [])"
| "py_bool (PDict kvs) = (kvs \<noteq> [])"
| "py_bool (PRef a) = True"

text \<open>\<^verbatim>\<open>isinstance(v, (list, tuple))\<close>\<close>

fun is_seq :: "pyval \<Rightarrow> bool" where
  "is_seq (PList xs) = True"
| "is_seq (PTuple xs) = True"
| "is_seq v = False"

text \<open>
  \<^verbatim>\<open>v[0]\<close>: the first element of a list or tuple, the first character of a string,
  the entry of a dictionary under a key equal to \<^verbatim>\<open>0\<close>; an error otherwise.
\<close>

definition key_is_zero :: "pyval \<Rightarrow> bool" where
  "key_is_zero k =
     (k = PInt 0 \<or> k = PBool False \<or> k = PFloat 0 \<or> k = PFloat 0x8000000000000000)"

fun py_index0 :: "pyval \<Rightarrow> exn + pyval" where
  "py_index0 (PList []) = Inl IndexError"
| "py_index0 (PList (x # xs)) = Inr x"
| "py_index0 (PTuple []) = Inl IndexError"
| "py_index0 (PTuple (x # xs)) = Inr x"
| "py_index0 (PStr []) = Inl IndexError"
| "py_index0 (PStr (c # cs)) = Inr (PStr [c])"
| "py_index0 (PDict kvs) =
     (case find (\<lambda>kv. key_is_zero (fst kv)) kvs of
        None \<Rightarrow> Inl KeyError
      | Some kv \<Rightarrow> Inr (snd kv))"
| "py_index0 v = Inl TypeError"

text \<open>\<^verbatim>\<open>d.get(key, default)\<close> on a decoded command, and on any value.\<close>

definition dict_get :: "(pyval \<times> pyval) list \<Rightarrow> string \<Rightarrow> pyval \<Rightarrow> pyval" where
  "dict_get kvs key dflt = (case map_of kvs (PStr key) of Some v \<Rightarrow> v | None \<Rightarrow> dflt)"

definition py_get :: "pyval \<Rightarrow> string \<Rightarrow> pyval \<Rightarrow> exn + pyval" where
  "py_get v key dflt = (case v of PDict kvs \<Rightarrow> Inr (dict_get kvs key dflt) | _ \<Rightarrow> Inl AttributeError)"

text \<open>
  Iteration, for \<^verbatim>\<open>list(v)\<close> and for the tuple assignments
  \<^verbatim>\<open>obs, infos = ...\<close> and \<^verbatim>\<open>obs, scores, dones, infos = ...\<close>.
\<close>

fun py_iter :: "pyval \<Rightarrow> pyval list option" where
  "py_iter (PList xs) = Some xs"
| "py_iter (PTuple xs) = Some xs"
| "py_iter (PStr s) = Some (map (\<lambda>c. PStr [c]) s)"
| "py_iter (PDict kvs) = Some (map fst kvs)"
| "py_iter v = None"

definition py_list :: "pyval \<Rightarrow> exn + pyval list" where
  "py_list v = (case py_iter v of None \<Rightarrow> Inl TypeError | Some xs \<Rightarrow> Inr xs)"

definition py_unpack :: "nat \<Rightarrow> pyval \<Rightarrow> exn + pyval list" where
  "py_unpack n v =
     (case py_iter v of
        None \<Rightarrow> Inl TypeError
      | Some xs \<Rightarrow> if length xs = n then Inr xs else Inl ValueError)"

text \<open>\<^verbatim>\<open>s.strip()\<close> and \<^verbatim>\<open>s.split("\n")\<close>\<close>

definition whitespace :: "char list" where
  "whitespace = [CHR 0x09, CHR 0x0A, CHR 0x0B, CHR 0x0C, CHR 0x0D, CHR 0x1C, CHR 0x1D,
                 CHR 0x1E, CHR 0x1F, CHR 0x20, CHR 0x85, CHR 0xA0]"

definition py_isspace :: "char \<Rightarrow> bool" where
  "py_isspace c = (c \<in> set whitespace)"

definition py_strip :: "string \<Rightarrow> string" where
  "py_strip s = rev (dropWhile py_isspace (rev (dropWhile py_isspace s)))"

fun split_nl :: "string \<Rightarrow> string list" where
  "split_nl [] = [[]]"
| "split_nl (c # cs) =
     (if c = CHR 0x0A then [] # split_nl cs
      else (case split_nl cs of [] \<Rightarrow> [[c]] | l # ls \<Rightarrow> (c # l) # ls))"

text \<open>
  \<^verbatim>\<open>json.dumps\<close> raises \<^verbatim>\<open>TypeError\<close> on an object that is not data and on a
  dictionary key that is not a string, number, boolean or \<^verbatim>\<open>None\<close>.
\<close>

fun json_key :: "pyval \<Rightarrow> bool" where
  "json_key (PList xs) = False"
| "json_key (PTuple xs) = False"
| "json_key (PDict kvs) = False"
| "json_key (PRef a) = False"
| "json_key v = True"

fun serializable :: "pyval \<Rightarrow> bool" where
  "serializable (PList xs) = list_all serializable xs"
| "serializable (PTuple xs) = list_all serializable xs"
| "serializable (PDict kvs) = list_all (\<lambda>kv. json_key (fst kv) \<and> serializable (snd kv)) kvs"
| "serializable (PRef a) = False"
| "serializable v = True"


section \<open>What the bridge takes from its libraries and from the engine\<close>

text \<open>
  The libraries and the ALFWorld engine are not part of the bridge.  Each operation the
  bridge calls is a parameter: the theorems hold for every value of it.  An operation
  that can touch engine objects takes the heap and returns the heap it leaves, together
  with its result or the exception it raised.  Every operation is taken to return or to
  raise an \<^verbatim>\<open>Exception\<close>: a call that hangs, and an exception outside that class
  (\<^verbatim>\<open>KeyboardInterrupt\<close>, \<^verbatim>\<open>SystemExit\<close>), are outside the model, as are failures of
  writing to standard output.
  \<^item> \<open>json_loads\<close> is \<^verbatim>\<open>json.loads\<close>: \<open>DecodeError msg\<close> is a \<^verbatim>\<open>JSONDecodeError\<close>
    whose text is \<open>msg\<close>, \<open>OtherError e\<close> any other exception it raises (a
    \<^verbatim>\<open>RecursionError\<close> on deep nesting, a \<^verbatim>\<open>ValueError\<close> on an integer of too
    many digits), \<open>Decoded v\<close> the decoded value.
  \<^item> \<open>str_of\<close> is \<^verbatim>\<open>str\<close> on values other than strings, \<^verbatim>\<open>None\<close> and booleans.
  \<^item> \<open>exc_text e\<close> is the text \<^verbatim>\<open>f"{e}\n{traceback.format_exc()}"\<close> of a caught exception.
  \<^item> \<open>float_of_int\<close> and \<open>float_of_str\<close> are \<^verbatim>\<open>float\<close> on integers and strings.
  \<^item> \<open>path_join\<close> is \<^verbatim>\<open>os.path.join\<close>.
  \<^item> \<open>alfworld_import\<close> is the two \<^verbatim>\<open>from alfworld... import\<close> lines of \<^verbatim>\<open>init\<close>; it
    returns \<^verbatim>\<open>ALFWORLD_DATA\<close>.
  \<^item> \<open>load_config_file config_path alfworld_data\<close> is the branch of \<^verbatim>\<open>init\<close> that reads
    a YAML file and resolves its dataset paths (lines 114 to 120).
  \<^item> \<open>alfred_tw_env config split\<close> is the constructor \<^verbatim>\<open>AlfredTWEnv(config, train_eval=split)\<close>:
    it returns the address of a new object.
  \<^item> \<open>init_env tw\<close> is \<^verbatim>\<open>tw.init_env(batch_size=1)\<close>; \<open>env_reset e\<close> is \<^verbatim>\<open>e.reset()\<close>;
    \<open>env_step e batch\<close> is \<^verbatim>\<open>e.step(batch)\<close>; \<open>env_close e\<close> is \<^verbatim>\<open>e.close()\<close>.
\<close>

type_synonym 'a call = "heap \<Rightarrow> (exn + 'a) \<times> heap"

datatype loaded = DecodeError string | OtherError exn | Decoded pyval

record runtime =
  json_loads :: "string \<Rightarrow> loaded"
  str_of :: "pyval \<Rightarrow> string"
  exc_text :: "exn \<Rightarrow> string"
  float_of_int :: "int \<Rightarrow> exn + 64 word"
  float_of_str :: "string \<Rightarrow> exn + 64 word"
  path_join :: "pyval list \<Rightarrow> exn + pyval"
  alfworld_import :: "pyval call"
  load_config_file :: "pyval \<Rightarrow> pyval \<Rightarrow> pyval call"
  alfred_tw_env :: "pyval \<Rightarrow> pyval \<Rightarrow> addr call"
  init_env :: "pyval \<Rightarrow> pyval call"
  env_reset :: "pyval \<Rightarrow> pyval call"
  env_step :: "pyval \<Rightarrow> pyval \<Rightarrow> pyval call"
  env_close :: "pyval \<Rightarrow> pyval call"

text \<open>\<^verbatim>\<open>str(v)\<close>, as the f-string \<^verbatim>\<open>f"Unknown command: {action}"\<close> applies it.\<close>

definition py_str :: "runtime \<Rightarrow> pyval \<Rightarrow> string" where
  "py_str rt v =
     (case v of
        PStr s \<Rightarrow> s
      | PNone \<Rightarrow> ''None''
      | PBool b \<Rightarrow> (if b then ''True'' else ''False'')
      | _ \<Rightarrow> str_of rt v)"

text \<open>\<^verbatim>\<open>float(v)\<close>: \<^verbatim>\<open>1.0\<close> is \<open>0x3FF0000000000000\<close>.\<close>

definition py_float :: "runtime \<Rightarrow> pyval \<Rightarrow> exn + pyval" where
  "py_float rt v =
     (case v of
        PFloat w \<Rightarrow> Inr (PFloat w)
      | PBool b \<Rightarrow> Inr (PFloat (if b then 0x3FF0000000000000 else 0))
      | PInt i \<Rightarrow> map_sum id PFloat (float_of_int rt i)
      | PStr s \<Rightarrow> map_sum id PFloat (float_of_str rt s)
      | _ \<Rightarrow> Inl TypeError)"

section \<open>The session and the output stream\<close>

text \<open>
  The state of \<^verbatim>\<open>main\<close>: its three local variables \<^verbatim>\<open>env\<close>, \<^verbatim>\<open>tw_env\<close> and
  \<^verbatim>\<open>game_files\<close>, the heap of engine objects, and the responses written to standard
  output so far, each as the value handed to \<^verbatim>\<open>json.dumps\<close>.  \<open>calls\<close> is a ghost
  field: the library and engine operations called so far, each with whether it returned
  (\<open>True\<close>) or raised (\<open>False\<close>).
\<close>

datatype ecall = Import | LoadConfig | Construct | InitEnv | Reset | Step pyval | Close

record state =
  env :: pyval
  tw_env :: pyval
  game_files :: pyval
  heap :: heap
  out :: "pyval list"
  calls :: "(ecall \<times> bool) list"

definition init_state :: "heap \<Rightarrow> state" where
  "init_state h =
     \<lparr>env = PNone, tw_env = PNone, game_files = PList [], heap = h, out = [], calls = []\<rparr>"

definition engine_call :: "ecall \<Rightarrow> 'a call \<Rightarrow> state \<Rightarrow> (exn + 'a) \<times> state" where
  "engine_call c f st =
     (case f (heap st) of
        (r, h') \<Rightarrow> (r, st\<lparr>heap := h', calls := calls st @ [(c, \<not> isl r)]\<rparr>))"

text \<open>
  \<^verbatim>\<open>
  def send(data):
      sys.stdout.write(json.dumps(data) + "\n")
      sys.stdout.flush()

  def send_error(msg):
      send({"status": "error", "error": msg})
  \<close>
  \<^verbatim>\<open>json.dumps\<close> runs before anything is written, so a value that cannot be encoded
  raises and writes nothing.
\<close>

definition send :: "pyval \<Rightarrow> state \<Rightarrow> exn + state" where
  "send data st = (if serializable data then Inr (st\<lparr>out := out st @ [data]\<rparr>) else Inl TypeError)"

definition error_response :: "string \<Rightarrow> pyval" where
  "error_response msg = PDict [(PStr ''status'', PStr ''error''), (PStr ''error'', PStr msg)]"

definition send_error :: "string \<Rightarrow> state \<Rightarrow> state" where
  "send_error msg st = st\<lparr>out := out st @ [error_response msg]\<rparr>"

definition ok_response :: pyval where
  "ok_response = PDict [(PStr ''status'', PStr ''ok'')]"

definition init_response :: "nat \<Rightarrow> pyval" where
  "init_response n = PDict [(PStr ''status'', PStr ''ok''), (PStr ''task_count'', PInt (int n))]"

definition tasks_response :: "pyval \<Rightarrow> pyval" where
  "tasks_response catalog = PDict [(PStr ''tasks'', catalog)]"


section \<open>The real bridge\<close>

text \<open>
  Inside a \<^verbatim>\<open>try\<close> block a raised exception skips the rest of the block:
  \<open>bind_exn r f\<close> goes on with \<open>f\<close> when \<open>r\<close> is a value.
\<close>

definition bind_exn :: "exn + 'a \<Rightarrow> ('a \<Rightarrow> exn + 'b) \<Rightarrow> exn + 'b" where
  "bind_exn r f = (case r of Inl e \<Rightarrow> Inl e | Inr x \<Rightarrow> f x)"

subsection \<open>\<^verbatim>\<open>default_config\<close>\<close>

definition join3 :: "runtime \<Rightarrow> pyval \<Rightarrow> string \<Rightarrow> string \<Rightarrow> exn + pyval" where
  "join3 rt root a b = path_join rt [root, PStr a, PStr b]"

definition default_config :: "runtime \<Rightarrow> pyval \<Rightarrow> pyval \<Rightarrow> exn + pyval" where
  "default_config rt alfworld_data split =
     bind_exn (join3 rt alfworld_data ''json_2.1.1'' ''train'') (\<lambda>data_path.
     bind_exn (join3 rt alfworld_data ''json_2.1.1'' ''valid_seen'') (\<lambda>eval_id.
     bind_exn (join3 rt alfworld_data ''json_2.1.1'' ''valid_unseen'') (\<lambda>eval_ood.
     bind_exn (join3 rt alfworld_data ''logic'' ''alfred.pddl'') (\<lambda>domain.
     bind_exn (join3 rt alfworld_data ''logic'' ''alfred.twl2'') (\<lambda>grammar.
      Inr (PDict
        [(PStr ''dataset'', PDict
            [(PStr ''data_path'', data_path),
             (PStr ''eval_id_data_path'', eval_id),
             (PStr ''eval_ood_data_path'', eval_ood),
             (PStr ''num_train_games'', PInt (- 1)),
             (PStr ''num_eval_games'', PInt (- 1))]),
         (PStr ''logic'', PDict
            [(PStr ''domain'', domain),
             (PStr ''grammar'', grammar)]),
         (PStr ''env'', PDict
            [(PStr ''type'', PStr ''AlfredTWEnv''),
             (PStr ''regen_game_files'', PBool False),
             (PStr ''domain_randomization'', PBool False),
             (PStr ''task_types'', PList [PInt 1, PInt 2, PInt 3, PInt 4, PInt 5, PInt 6]),
             (PStr ''goal_desc_human_anns_prob'', PInt 0),
             (PStr ''expert_type'', PStr ''handcoded'')]),
         (PStr ''controller'', PDict
            [(PStr ''type'', PStr ''oracle''),
             (PStr ''debug'', PBool False)]),
         (PStr ''general'', PDict
            [(PStr ''random_seed'', PInt 42),
             (PStr ''training_method'', PStr ''dagger'')]),
         (PStr ''dagger'', PDict
            [(PStr ''training'', PDict
                [(PStr ''max_nb_steps_per_episode'', PInt 50)])])]))))))"

subsection \<open>\<^verbatim>\<open>init\<close> (lines 104 to 132)\<close>

text \<open>
  The body of a \<^verbatim>\<open>try\<close> block returns the exception that ended it, if any, with the
  state at that moment: what was assigned before the exception stays assigned.
\<close>

definition build_config ::
  "runtime \<Rightarrow> pyval \<Rightarrow> pyval \<Rightarrow> pyval \<Rightarrow> state \<Rightarrow> (exn + pyval) \<times> state" where
  "build_config rt config_path split alfworld_data st =
     (if py_bool config_path
      then engine_call LoadConfig (load_config_file rt config_path alfworld_data) st
      else (default_config rt alfworld_data split, st))"

definition init_catalog :: "runtime \<Rightarrow> state \<Rightarrow> exn option \<times> state" where
  "init_catalog rt st =
     (case py_getattr (heap st) (tw_env st) ''game_files'' of
        None \<Rightarrow> (Some AttributeError, st)
      | Some gf \<Rightarrow>
          (case py_list gf of
             Inl e \<Rightarrow> (Some e, st)
           | Inr xs \<Rightarrow>
               (case send (init_response (length xs)) (st\<lparr>game_files := PList xs\<rparr>) of
                  Inl e \<Rightarrow> (Some e, st\<lparr>game_files := PList xs\<rparr>)
                | Inr st' \<Rightarrow> (None, st'))))"

text \<open>
  \<open>init_config\<close> is lines 106 to 122, the imports and the configuration: it returns
  \<^verbatim>\<open>config\<close> and \<^verbatim>\<open>split\<close>.  \<open>init_body\<close> is the whole \<^verbatim>\<open>try\<close> block.
\<close>

definition init_config ::
  "runtime \<Rightarrow> (pyval \<times> pyval) list \<Rightarrow> state \<Rightarrow> (exn + pyval \<times> pyval) \<times> state" where
  "init_config rt cmd st0 =
     (case engine_call Import (alfworld_import rt) st0 of
        (Inl e, st1) \<Rightarrow> (Inl e, st1)
      | (Inr data_dflt, st1) \<Rightarrow>
          (let config_path = dict_get cmd ''config_path'' PNone;
               split = dict_get cmd ''split'' (PStr ''eval_out_of_distribution'');
               alfworld_data = dict_get cmd ''alfworld_data'' data_dflt
           in case build_config rt config_path split alfworld_data st1 of
                (Inl e, st2) \<Rightarrow> (Inl e, st2)
              | (Inr config, st2) \<Rightarrow> (Inr (config, split), st2)))"

definition init_body :: "runtime \<Rightarrow> (pyval \<times> pyval) list \<Rightarrow> state \<Rightarrow> exn option \<times> state" where
  "init_body rt cmd st0 =
     (case init_config rt cmd st0 of
        (Inl e, st2) \<Rightarrow> (Some e, st2)
      | (Inr (config, split), st2) \<Rightarrow>
          (case engine_call Construct (alfred_tw_env rt config split) st2 of
             (Inl e, st3) \<Rightarrow> (Some e, st3)
           | (Inr t, st3) \<Rightarrow>
               (case engine_call InitEnv (init_env rt (PRef t)) (st3\<lparr>tw_env := PRef t\<rparr>) of
                  (Inl e, st4) \<Rightarrow> (Some e, st4)
                | (Inr v, st4) \<Rightarrow> init_catalog rt (st4\<lparr>env := v\<rparr>))))"

definition do_init :: "runtime \<Rightarrow> (pyval \<times> pyval) list \<Rightarrow> state \<Rightarrow> state" where
  "do_init rt cmd st =
     (case init_body rt cmd st of
        (None, st') \<Rightarrow> st'
      | (Some e, st') \<Rightarrow> send_error (''Failed to initialize ALFWorld: '' @ exc_text rt e) st')"

subsection \<open>\<^verbatim>\<open>reset\<close> (lines 137 to 166)\<close>

text \<open>
  \<open>narrow_tasks\<close> is lines 143 to 147: with a truthy \<^verbatim>\<open>game_file\<close>, the assignment
  \<^verbatim>\<open>tw_env.game_files = files\<close> and the call of \<^verbatim>\<open>set_game_files\<close>.  The outer
  \<open>option\<close> is \<open>None\<close> when \<^verbatim>\<open>set_game_files\<close> never returns.
\<close>

definition narrow_tasks :: "(pyval \<times> pyval) list \<Rightarrow> state \<Rightarrow> (exn option \<times> state) option" where
  "narrow_tasks cmd st =
     (let game_file = dict_get cmd ''game_file'' PNone in
      if py_bool game_file
      then (case tw_env st of
              PRef t \<Rightarrow>
                (case set_game_files (py_setattr (heap st) (PRef t) ''game_files'' (PList [game_file]))
                        (env st) (PList [game_file]) of
                   None \<Rightarrow> None
                 | Some h \<Rightarrow> Some (None, st\<lparr>heap := h\<rparr>))
            | _ \<Rightarrow> Some (Some AttributeError, st))
      else Some (None, st))"

text \<open>\<^verbatim>\<open>obs[0] if isinstance(obs, (list, tuple)) else str(obs)\<close>\<close>

definition obs_text_of :: "runtime \<Rightarrow> pyval \<Rightarrow> exn + pyval" where
  "obs_text_of rt obs = (if is_seq obs then py_index0 obs else Inr (PStr (py_str rt obs)))"

text \<open>\<^verbatim>\<open>infos.get("admissible_commands", [[]])[0]\<close>\<close>

definition admissible_of :: "pyval \<Rightarrow> exn + pyval" where
  "admissible_of infos =
     bind_exn (py_get infos ''admissible_commands'' (PList [PList []])) py_index0"

text \<open>
  \<^verbatim>\<open>
  lines = obs_text.strip().split("\n")
  goal = lines[0] if lines else ""
  \<close>
\<close>

definition goal_of :: "pyval \<Rightarrow> exn + string" where
  "goal_of obs_text =
     (case obs_text of
        PStr t \<Rightarrow> Inr (case split_nl (py_strip t) of [] \<Rightarrow> [] | l # ls \<Rightarrow> l)
      | _ \<Rightarrow> Inl AttributeError)"

definition reset_response :: "runtime \<Rightarrow> pyval \<Rightarrow> exn + pyval" where
  "reset_response rt result =
     bind_exn (py_unpack 2 result) (\<lambda>xs.
       case xs of
         [obs, infos] \<Rightarrow>
           bind_exn (obs_text_of rt obs) (\<lambda>obs_text.
           bind_exn (admissible_of infos) (\<lambda>admissible.
           bind_exn (goal_of obs_text) (\<lambda>goal.
             Inr (PDict
               [(PStr ''obs'', obs_text),
                (PStr ''admissible_commands'', admissible),
                (PStr ''goal'', PStr goal),
                (PStr ''done'', PBool False),
                (PStr ''score'', PInt 0)]))))
       | _ \<Rightarrow> Inl ValueError)"

definition reset_body ::
  "runtime \<Rightarrow> (pyval \<times> pyval) list \<Rightarrow> state \<Rightarrow> (exn option \<times> state) option" where
  "reset_body rt cmd st =
     (case narrow_tasks cmd st of
        None \<Rightarrow> None
      | Some (Some e, st1) \<Rightarrow> Some (Some e, st1)
      | Some (None, st1) \<Rightarrow>
          (case engine_call Reset (env_reset rt (env st1)) st1 of
             (Inl e, st2) \<Rightarrow> Some (Some e, st2)
           | (Inr result, st2) \<Rightarrow>
               (case reset_response rt result of
                  Inl e \<Rightarrow> Some (Some e, st2)
                | Inr resp \<Rightarrow>
                    (case send resp st2 of
                       Inl e \<Rightarrow> Some (Some e, st2)
                     | Inr st3 \<Rightarrow> Some (None, st3)))))"

definition not_initialized :: string where
  "not_initialized = ''Environment not initialized. Call init first.''"

definition do_reset :: "runtime \<Rightarrow> (pyval \<times> pyval) list \<Rightarrow> state \<Rightarrow> state option" where
  "do_reset rt cmd st =
     (if env st = PNone then Some (send_error not_initialized st)
      else (case reset_body rt cmd st of
              None \<Rightarrow> None
            | Some (None, st') \<Rightarrow> Some st'
            | Some (Some e, st') \<Rightarrow> Some (send_error (''Reset failed: '' @ exc_text rt e) st')))"

subsection \<open>\<^verbatim>\<open>step\<close> (lines 168 to 190)\<close>

text \<open>\<^verbatim>\<open>x[0] if isinstance(x, (list, tuple)) else x\<close>, under \<^verbatim>\<open>bool\<close> and \<^verbatim>\<open>float\<close>.\<close>

definition first_slot :: "pyval \<Rightarrow> exn + pyval" where
  "first_slot x = (if is_seq x then py_index0 x else Inr x)"

definition step_response :: "runtime \<Rightarrow> pyval \<Rightarrow> exn + pyval" where
  "step_response rt result =
     bind_exn (py_unpack 4 result) (\<lambda>xs.
       case xs of
         [obs, scores, dones, infos] \<Rightarrow>
           bind_exn (obs_text_of rt obs) (\<lambda>obs_text.
           bind_exn (first_slot dones) (\<lambda>d.
           bind_exn (first_slot scores) (\<lambda>sc.
           bind_exn (py_float rt sc) (\<lambda>score.
           bind_exn (admissible_of infos) (\<lambda>admissible.
             Inr (PDict
               [(PStr ''obs'', obs_text),
                (PStr ''admissible_commands'', admissible),
                (PStr ''done'', PBool (py_bool d)),
                (PStr ''score'', score)]))))))
       | _ \<Rightarrow> Inl ValueError)"

definition step_action :: "(pyval \<times> pyval) list \<Rightarrow> pyval" where
  "step_action cmd = dict_get cmd ''action'' (PStr ''look'')"

definition step_body :: "runtime \<Rightarrow> (pyval \<times> pyval) list \<Rightarrow> state \<Rightarrow> exn option \<times> state" where
  "step_body rt cmd st =
     (let act = step_action cmd in
      case engine_call (Step (PList [act])) (env_step rt (env st) (PList [act])) st of
        (Inl e, st1) \<Rightarrow> (Some e, st1)
      | (Inr result, st1) \<Rightarrow>
          (case step_response rt result of
             Inl e \<Rightarrow> (Some e, st1)
           | Inr resp \<Rightarrow>
               (case send resp st1 of
                  Inl e \<Rightarrow> (Some e, st1)
                | Inr st2 \<Rightarrow> (None, st2))))"

definition do_step :: "runtime \<Rightarrow> (pyval \<times> pyval) list \<Rightarrow> state \<Rightarrow> state" where
  "do_step rt cmd st =
     (if env st = PNone then send_error not_initialized st
      else (case step_body rt cmd st of
              (None, st') \<Rightarrow> st'
            | (Some e, st') \<Rightarrow> send_error (''Step failed: '' @ exc_text rt e) st'))"

subsection \<open>\<^verbatim>\<open>shutdown\<close> (lines 192 to 199) and the loop\<close>

definition close_engine :: "runtime \<Rightarrow> state \<Rightarrow> state" where
  "close_engine rt st =
     (if env st \<noteq> PNone then snd (engine_call Close (env_close rt (env st)) st) else st)"

text \<open>
  How the handling of one line ends: \<^verbatim>\<open>continue\<close> or the end of the loop body,
  \<^verbatim>\<open>break\<close>, or an exception that nothing catches, which ends the process.
\<close>

datatype ctl = Continue | Break | Crash exn

definition dispatch :: "runtime \<Rightarrow> (pyval \<times> pyval) list \<Rightarrow> state \<Rightarrow> (state \<times> ctl) option" where
  "dispatch rt cmd st =
     (let action = dict_get cmd ''cmd'' PNone in
      if action = PStr ''init'' then Some (do_init rt cmd st, Continue)
      else if action = PStr ''list_tasks'' then
        (case send (tasks_response (game_files st)) st of
           Inr st' \<Rightarrow> Some (st', Continue)
         | Inl e \<Rightarrow> Some (st, Crash e))
      else if action = PStr ''reset'' then map_option (\<lambda>st'. (st', Continue)) (do_reset rt cmd st)
      else if action = PStr ''step'' then Some (do_step rt cmd st, Continue)
      else if action = PStr ''shutdown'' then
        (case send ok_response (close_engine rt st) of
           Inr st' \<Rightarrow> Some (st', Break)
         | Inl e \<Rightarrow> Some (close_engine rt st, Crash e))
      else Some (send_error (''Unknown command: '' @ py_str rt action) st, Continue))"

text \<open>
  One iteration of \<^verbatim>\<open>for line in sys.stdin\<close>.  The \<^verbatim>\<open>except\<close> clause around
  \<^verbatim>\<open>json.loads\<close> names \<^verbatim>\<open>json.JSONDecodeError\<close> only: any other exception of
  \<^verbatim>\<open>json.loads\<close> is not caught.  A decoded value that is not a dictionary has no
  \<^verbatim>\<open>get\<close>: the \<^verbatim>\<open>AttributeError\<close> is raised outside every \<^verbatim>\<open>try\<close>.
\<close>

definition handle_line :: "runtime \<Rightarrow> string \<Rightarrow> state \<Rightarrow> (state \<times> ctl) option" where
  "handle_line rt raw st =
     (let line = py_strip raw in
      if line = [] then Some (st, Continue)
      else (case json_loads rt line of
              DecodeError msg \<Rightarrow> Some (send_error (''Invalid JSON: '' @ msg) st, Continue)
            | OtherError e \<Rightarrow> Some (st, Crash e)
            | Decoded (PDict cmd) \<Rightarrow> dispatch rt cmd st
            | Decoded v \<Rightarrow> Some (st, Crash AttributeError)))"

text \<open>
  The loop over the lines of standard input.  The result \<open>Continue\<close> is the end of the
  input; \<open>None\<close> is a run that hangs inside \<^verbatim>\<open>set_game_files\<close>.
\<close>

fun main_loop :: "runtime \<Rightarrow> string list \<Rightarrow> state \<Rightarrow> (state \<times> ctl) option" where
  "main_loop rt [] st = Some (st, Continue)"
| "main_loop rt (l # ls) st =
     (case handle_line rt l st of
        None \<Rightarrow> None
      | Some (st', Continue) \<Rightarrow> main_loop rt ls st'
      | Some (st', Break) \<Rightarrow> Some (st', Break)
      | Some (st', Crash e) \<Rightarrow> Some (st', Crash e))"

definition main :: "runtime \<Rightarrow> heap \<Rightarrow> string list \<Rightarrow> (state \<times> ctl) option" where
  "main rt h input = main_loop rt input (init_state h)"

section \<open>The mock bridge\<close>

text \<open>
  The mock has no session: its only state is the output written so far.  All it sends is
  data, so \<^verbatim>\<open>json.dumps\<close> never fails in it.
\<close>

definition MOCK_TASKS :: "pyval list" where
  "MOCK_TASKS = [PStr ''path/to/task1.tw-pddl'', PStr ''path/to/task2.tw-pddl'',
                 PStr ''path/to/task3.tw-pddl'']"

definition INITIAL_OBS :: string where
  "INITIAL_OBS =
     ''You are in the middle of a room. Looking quickly around you, '' @
     ''you see a desk 1, a shelf 1, and a drawer 1.'' @ [CHR 0x0A] @
     ''Your task is to put a mug in shelf.''"

definition step_entry :: "string \<Rightarrow> string list \<Rightarrow> bool \<Rightarrow> int \<Rightarrow> pyval" where
  "step_entry obs admissible dn score =
     PDict [(PStr ''obs'', PStr obs),
            (PStr ''admissible_commands'', PList (map PStr admissible)),
            (PStr ''done'', PBool dn),
            (PStr ''score'', PInt score)]"

definition STEP_RESPONSES :: "(pyval \<times> pyval) list" where
  "STEP_RESPONSES =
     [(PStr ''go to desk 1'',
       step_entry ''On the desk 1, you see a mug 1 and a pen 1.''
         [''take mug 1 from desk 1'', ''take pen 1 from desk 1'', ''go to shelf 1'',
          ''go to drawer 1'']
         False 0),
      (PStr ''take mug 1 from desk 1'',
       step_entry ''You pick up the mug 1 from the desk 1.''
         [''go to shelf 1'', ''go to drawer 1'', ''go to desk 1'', ''put mug 1 in/on shelf 1'',
          ''put mug 1 in/on drawer 1'']
         False 0),
      (PStr ''go to shelf 1'',
       step_entry ''You arrive at shelf 1. On the shelf 1, you see nothing.''
         [''put mug 1 in/on shelf 1'', ''go to desk 1'', ''go to drawer 1'']
         False 0),
      (PStr ''put mug 1 in/on shelf 1'',
       step_entry ''You put the mug 1 in/on the shelf 1.'' [] True 1)]"

definition DEFAULT_STEP :: pyval where
  "DEFAULT_STEP =
     step_entry ''Nothing happens.''
       [''go to desk 1'', ''go to shelf 1'', ''go to drawer 1'', ''look'', ''inventory'']
       False 0"

definition mock_reset_response :: pyval where
  "mock_reset_response =
     PDict [(PStr ''obs'', PStr INITIAL_OBS),
            (PStr ''admissible_commands'',
             PList (map PStr [''go to desk 1'', ''go to shelf 1'', ''go to drawer 1'', ''look'',
                              ''inventory''])),
            (PStr ''goal'', PStr ''Your task is to put a mug in shelf.''),
            (PStr ''done'', PBool False),
            (PStr ''score'', PInt 0)]"

text \<open>
  \<^verbatim>\<open>STEP_RESPONSES.get(act, DEFAULT_STEP)\<close> hashes \<^verbatim>\<open>act\<close>: a list or a dictionary
  raises \<^verbatim>\<open>TypeError\<close>, outside every \<^verbatim>\<open>try\<close>.  The default of
  \<^verbatim>\<open>cmd.get("action", "")\<close> is the empty string.
\<close>

fun hashable :: "pyval \<Rightarrow> bool" where
  "hashable (PList xs) = False"
| "hashable (PDict kvs) = False"
| "hashable (PTuple xs) = list_all hashable xs"
| "hashable v = True"

definition mock_step :: "(pyval \<times> pyval) list \<Rightarrow> exn + pyval" where
  "mock_step cmd =
     (let act = dict_get cmd ''action'' (PStr []) in
      if hashable act
      then Inr (case map_of STEP_RESPONSES act of Some resp \<Rightarrow> resp | None \<Rightarrow> DEFAULT_STEP)
      else Inl TypeError)"

definition mock_dispatch ::
  "runtime \<Rightarrow> (pyval \<times> pyval) list \<Rightarrow> pyval list \<Rightarrow> pyval list \<times> ctl" where
  "mock_dispatch rt cmd sent =
     (let action = dict_get cmd ''cmd'' PNone in
      if action = PStr ''init'' then (sent @ [init_response (length MOCK_TASKS)], Continue)
      else if action = PStr ''list_tasks'' then (sent @ [tasks_response (PList MOCK_TASKS)], Continue)
      else if action = PStr ''reset'' then (sent @ [mock_reset_response], Continue)
      else if action = PStr ''step'' then
        (case mock_step cmd of
           Inr resp \<Rightarrow> (sent @ [resp], Continue)
         | Inl e \<Rightarrow> (sent, Crash e))
      else if action = PStr ''shutdown'' then (sent @ [ok_response], Break)
      else (sent @ [error_response (''Unknown command: '' @ py_str rt action)], Continue))"

definition mock_handle_line :: "runtime \<Rightarrow> string \<Rightarrow> pyval list \<Rightarrow> pyval list \<times> ctl" where
  "mock_handle_line rt raw sent =
     (let line = py_strip raw in
      if line = [] then (sent, Continue)
      else (case json_loads rt line of
              DecodeError msg \<Rightarrow> (sent @ [error_response ''Invalid JSON''], Continue)
            | OtherError e \<Rightarrow> (sent, Crash e)
            | Decoded (PDict cmd) \<Rightarrow> mock_dispatch rt cmd sent
            | Decoded v \<Rightarrow> (sent, Crash AttributeError)))"

fun mock_loop :: "runtime \<Rightarrow> string list \<Rightarrow> pyval list \<Rightarrow> pyval list \<times> ctl" where
  "mock_loop rt [] sent = (sent, Continue)"
| "mock_loop rt (l # ls) sent =
     (case mock_handle_line rt l sent of
        (sent', Continue) \<Rightarrow> mock_loop rt ls sent'
      | (sent', Break) \<Rightarrow> (sent', Break)
      | (sent', Crash e) \<Rightarrow> (sent', Crash e))"

definition mock_main :: "runtime \<Rightarrow> string list \<Rightarrow> pyval list \<times> ctl" where
  "mock_main rt input = mock_loop rt input []"

section \<open>Notions used in the statements\<close>

text \<open>
  An input line \<open>decodes\<close> to a command when it is not blank and \<^verbatim>\<open>json.loads\<close> makes
  a dictionary of its trimmed text; \<open>cmd_kind\<close> is \<^verbatim>\<open>cmd.get("cmd")\<close>.
\<close>

definition decodes :: "runtime \<Rightarrow> string \<Rightarrow> (pyval \<times> pyval) list \<Rightarrow> bool" where
  "decodes rt raw cmd = (py_strip raw \<noteq> [] \<and> json_loads rt (py_strip raw) = Decoded (PDict cmd))"

definition cmd_kind :: "(pyval \<times> pyval) list \<Rightarrow> pyval" where
  "cmd_kind cmd = dict_get cmd ''cmd'' PNone"

definition known_kinds :: "pyval list" where
  "known_kinds = [PStr ''init'', PStr ''list_tasks'', PStr ''reset'', PStr ''step'', PStr ''shutdown'']"

text \<open>The operations a command called: what it added to the ghost log.\<close>

definition new_calls :: "state \<Rightarrow> state \<Rightarrow> (ecall \<times> bool) list" where
  "new_calls st st' = drop (length (calls st)) (calls st')"

text \<open>The first line of a text: what precedes its first line feed.\<close>

definition first_line :: "string \<Rightarrow> string" where
  "first_line s = takeWhile (\<lambda>c. c \<noteq> CHR 0x0A) s"

section \<open>A small engine, for the examples\<close>

text \<open>
  An engine of three objects.  The constructor puts the \<^verbatim>\<open>AlfredTWEnv\<close> object at
  address 1; \<^verbatim>\<open>init_env\<close> builds two wrappers around it: the handle at address 2 (its
  task set is \<^verbatim>\<open>gameFiles\<close>, its delegate \<^verbatim>\<open>env\<close>) and a layer at address 3 (its task
  set is \<^verbatim>\<open>game_files\<close>, its delegate \<^verbatim>\<open>_wrapped_env\<close>).  Closing it fails.
\<close>

definition demo_catalog :: pyval where
  "demo_catalog = PList [PStr ''a.tw-pddl'', PStr ''b.tw-pddl'']"

definition demo_heap :: heap where
  "demo_heap = (\<lambda>a. Map.empty)"

definition demo_built :: heap where
  "demo_built = demo_heap(1 := [''game_files'' \<mapsto> demo_catalog])"

definition demo_wrapped :: heap where
  "demo_wrapped = demo_built
     (2 := [''env'' \<mapsto> PRef 3, ''gameFiles'' \<mapsto> demo_catalog],
      3 := [''_wrapped_env'' \<mapsto> PRef 1, ''game_files'' \<mapsto> demo_catalog])"

definition demo_obs :: string where
  "demo_obs = [CHR 0x0A] @ ''You are in a room.'' @ [CHR 0x0A] @ ''Your task is to: look.''"

definition demo_infos :: pyval where
  "demo_infos =
     PDict [(PStr ''admissible_commands'', PList [PList [PStr ''look'', PStr ''go to desk 1'']])]"

definition demo_table :: "(string \<times> pyval) list" where
  \<open>demo_table =
     [(''{"cmd": "init"}'', PDict [(PStr ''cmd'', PStr ''init'')]),
      (''{"cmd": "list_tasks"}'', PDict [(PStr ''cmd'', PStr ''list_tasks'')]),
      (''{"cmd": "reset"}'', PDict [(PStr ''cmd'', PStr ''reset'')]),
      (''{"cmd": "reset", "game_file": "b.tw-pddl"}'',
       PDict [(PStr ''cmd'', PStr ''reset''), (PStr ''game_file'', PStr ''b.tw-pddl'')]),
      (''{"cmd": "step"}'', PDict [(PStr ''cmd'', PStr ''step'')]),
      (''{"cmd": "step", "action": "go to desk 1"}'',
       PDict [(PStr ''cmd'', PStr ''step''), (PStr ''action'', PStr ''go to desk 1'')]),
      (''{"cmd": "step", "action": "take mug 1 from desk 1"}'',
       PDict [(PStr ''cmd'', PStr ''step''), (PStr ''action'', PStr ''take mug 1 from desk 1'')]),
      (''{"cmd": "step", "action": "go to shelf 1"}'',
       PDict [(PStr ''cmd'', PStr ''step''), (PStr ''action'', PStr ''go to shelf 1'')]),
      (''{"cmd": "step", "action": "put mug 1 in/on shelf 1"}'',
       PDict [(PStr ''cmd'', PStr ''step''), (PStr ''action'', PStr ''put mug 1 in/on shelf 1'')]),
      (''{"cmd": "step", "action": "dance"}'',
       PDict [(PStr ''cmd'', PStr ''step''), (PStr ''action'', PStr ''dance'')]),
      (''{"cmd": "shutdown"}'', PDict [(PStr ''cmd'', PStr ''shutdown'')]),
      (''{"cmd": "fly"}'', PDict [(PStr ''cmd'', PStr ''fly'')]),
      (''{}'', PDict []),
      (''{"cmd": "init", "config_path": "missing.yaml"}'',
       PDict [(PStr ''cmd'', PStr ''init''), (PStr ''config_path'', PStr ''missing.yaml'')])]\<close>

text \<open>
  The decoder of the examples knows the lines of \<open>demo_table\<close>; like \<^verbatim>\<open>json.loads\<close>
  it raises \<^verbatim>\<open>RecursionError\<close> on 2048 opening brackets; it rejects every other text.
\<close>

definition deep_text :: string where
  "deep_text = replicate 2048 (CHR ''['')"

definition recursion_error :: exn where
  "recursion_error = External ''maximum recursion depth exceeded while decoding a JSON array''"

definition demo_loads :: "string \<Rightarrow> loaded" where
  "demo_loads s =
     (case map_of demo_table s of
        Some v \<Rightarrow> Decoded v
      | None \<Rightarrow>
          if s = deep_text then OtherError recursion_error
          else DecodeError ''Expecting value: line 1 column 1 (char 0)'')"

definition demo_rt :: runtime where
  "demo_rt =
     \<lparr>json_loads = demo_loads,
      str_of = (\<lambda>v. ''<object>''),
      exc_text = (\<lambda>e. case e of External msg \<Rightarrow> msg | _ \<Rightarrow> ''error''),
      float_of_int = (\<lambda>i. if i = 0 then Inr 0 else Inl ValueError),
      float_of_str = (\<lambda>s. Inl ValueError),
      path_join = (\<lambda>xs. Inr (PStr ''/data'')),
      alfworld_import = (\<lambda>h. (Inr (PStr ''/data''), h)),
      load_config_file = (\<lambda>p d h. (Inl (External ''No such file''), h)),
      alfred_tw_env = (\<lambda>config split h. (Inr 1, h(1 := [''game_files'' \<mapsto> demo_catalog]))),
      init_env = (\<lambda>tw h. (Inr (PRef 2),
                   h(2 := [''env'' \<mapsto> PRef 3, ''gameFiles'' \<mapsto> demo_catalog],
                     3 := [''_wrapped_env'' \<mapsto> tw, ''game_files'' \<mapsto> demo_catalog]))),
      env_reset = (\<lambda>e h. (Inr (PTuple [PList [PStr demo_obs], demo_infos]), h)),
      env_step = (\<lambda>e batch h.
                   (Inr (PTuple [PList [PStr ''Nothing happens.''], PList [PFloat 0x3FF0000000000000],
                                 PList [PBool True], demo_infos]), h)),
      env_close = (\<lambda>e h. (Inl (External ''close failed''), h))\<rparr>"

text \<open>The same engine, except that \<^verbatim>\<open>init_env\<close> raises.\<close>

definition broken_rt :: runtime where
  "broken_rt = demo_rt\<lparr>init_env := (\<lambda>tw h. (Inl (External ''init_env failed''), h))\<rparr>"

text \<open>The same engine, except that the object it constructs has no \<^verbatim>\<open>game_files\<close>.\<close>

definition bare_rt :: runtime where
  "bare_rt = demo_rt\<lparr>alfred_tw_env := (\<lambda>config split h. (Inr 1, h))\<rparr>"

text \<open>The configuration and the split of an \<^verbatim>\<open>init\<close> without fields on these engines.\<close>

definition demo_split :: pyval where
  "demo_split = PStr ''eval_out_of_distribution''"

definition demo_config :: pyval where
  "demo_config =
     (case default_config demo_rt (PStr ''/data'') demo_split of Inr c \<Rightarrow> c | Inl e \<Rightarrow> PNone)"

definition demo_imported :: state where
  "demo_imported = (init_state demo_heap)\<lparr>calls := [(Import, True)]\<rparr>"

text \<open>An object that is its own delegate.\<close>

definition cyclic_heap :: heap where
  "cyclic_heap = demo_heap(0 := [''env'' \<mapsto> PRef 0])"

definition line_of :: "string \<Rightarrow> string" where
  "line_of s = s @ [CHR 0x0A]"

text \<open>The heap after the task-set attributes of the layers \<open>ls\<close> were overwritten, in order.\<close>

definition narrow_layers :: "pyval \<Rightarrow> pyval list \<Rightarrow> heap \<Rightarrow> heap" where
  "narrow_layers files ls h = fold (\<lambda>v h. set_attrs h v files) ls h"

text \<open>
  The session invariant: an engine handle is only ever present after a call of
  \<^verbatim>\<open>init_env\<close> returned, and then \<^verbatim>\<open>tw_env\<close> is an object.
\<close>

definition session_inv :: "state \<Rightarrow> bool" where
  "session_inv st =
     (env st = PNone \<or> ((InitEnv, True) \<in> set (calls st) \<and> (\<exists>t. tw_env st = PRef t)))"

text \<open>Input lines, and the session after \<^verbatim>\<open>init\<close> on each of the two engines.\<close>

definition init_line :: string where
  \<open>init_line = line_of ''{"cmd": "init"}''\<close>

definition list_line :: string where
  \<open>list_line = line_of ''{"cmd": "list_tasks"}''\<close>

definition reset_line :: string where
  \<open>reset_line = line_of ''{"cmd": "reset"}''\<close>

definition reset_b_line :: string where
  \<open>reset_b_line = line_of ''{"cmd": "reset", "game_file": "b.tw-pddl"}''\<close>


definition shutdown_line :: string where
  \<open>shutdown_line = line_of ''{"cmd": "shutdown"}''\<close>

definition fly_line :: string where
  \<open>fly_line = line_of ''{"cmd": "fly"}''\<close>

definition empty_object_line :: string where
  \<open>empty_object_line = line_of ''{}''\<close>

definition init_missing_line :: string where
  \<open>init_missing_line = line_of ''{"cmd": "init", "config_path": "missing.yaml"}''\<close>

definition garbled_line :: string where
  \<open>garbled_line = line_of ''{"cmd": init''\<close>

definition deep_line :: string where
  "deep_line = line_of deep_text"

definition blank_line :: string where
  "blank_line = [CHR 0x20, CHR 0x09, CHR 0x0A]"

definition step_action_line :: "string \<Rightarrow> string" where
  \<open>step_action_line a = line_of (''{"cmd": "step", "action": "'' @ a @ ''"}'')\<close>


definition demo_half :: state where
  "demo_half =
     \<lparr>env = PNone, tw_env = PRef 1, game_files = PList [], heap = demo_built,
      out = [error_response ''Failed to initialize ALFWorld: init_env failed''],
      calls = [(Import, True), (Construct, True), (InitEnv, False)]\<rparr>"

text \<open>
  The session after a first \<^verbatim>\<open>init\<close> on the engine whose constructed object has no
  \<^verbatim>\<open>game_files\<close>: the enumeration of the tasks raises \<^verbatim>\<open>AttributeError\<close>.
\<close>

definition demo_bare :: state where
  "demo_bare =
     \<lparr>env = PRef 2, tw_env = PRef 1, game_files = PList [],
      heap = demo_heap
        (2 := [''env'' \<mapsto> PRef 3, ''gameFiles'' \<mapsto> demo_catalog],
         3 := [''_wrapped_env'' \<mapsto> PRef 1, ''game_files'' \<mapsto> demo_catalog]),
      out = [PDict [(PStr ''status'', PStr ''error''),
                    (PStr ''error'', PStr ''Failed to initialize ALFWorld: error'')]],
      calls = [(Import, True), (Construct, True), (InitEnv, True)]\<rparr>"

definition demo_ready :: state where
  "demo_ready =
     \<lparr>env = PRef 2, tw_env = PRef 1, game_files = demo_catalog, heap = demo_wrapped,
      out = [init_response 2],
      calls = [(Import, True), (Construct, True), (InitEnv, True)]\<rparr>"

text \<open>The initialized session after a second \<^verbatim>\<open>init\<close> whose configuration file is missing.\<close>

definition demo_missing :: state where
  "demo_missing =
     demo_ready\<lparr>out := out demo_ready @
                   [PDict [(PStr ''status'', PStr ''error''),
                           (PStr ''error'', PStr ''Failed to initialize ALFWorld: No such file'')]],
                calls := calls demo_ready @ [(Import, True), (LoadConfig, False)]\<rparr>"

text \<open>The example session after \<^verbatim>\<open>reset\<close> with the game file \<^verbatim>\<open>b.tw-pddl\<close>.\<close>

definition demo_files :: pyval where
  "demo_files = PList [PStr ''b.tw-pddl'']"

definition demo_narrowed :: heap where
  "demo_narrowed =
     narrow_layers demo_files [PRef 2, PRef 3, PRef 1]
       (py_setattr demo_wrapped (PRef 1) ''game_files'' demo_files)"

definition demo_reset_response :: pyval where
  "demo_reset_response =
     PDict [(PStr ''obs'', PStr demo_obs),
            (PStr ''admissible_commands'', PList [PStr ''look'', PStr ''go to desk 1'']),
            (PStr ''goal'', PStr ''You are in a room.''),
            (PStr ''done'', PBool False),
            (PStr ''score'', PInt 0)]"

definition demo_after_reset :: state where
  "demo_after_reset =
     demo_ready\<lparr>heap := demo_narrowed, out := out demo_ready @ [demo_reset_response],
                calls := calls demo_ready @ [(Reset, True)]\<rparr>"


text \<open>
  A line that decodes to a command of kind \<open>k\<close>, and a line that decodes to a
  \<^verbatim>\<open>step\<close> command with the action text \<open>a\<close>.
\<close>

definition plain_cmd :: "runtime \<Rightarrow> string \<Rightarrow> string \<Rightarrow> bool" where
  "plain_cmd rt raw k = (\<exists>cmd. decodes rt raw cmd \<and> cmd_kind cmd = PStr k)"

definition step_cmd :: "runtime \<Rightarrow> string \<Rightarrow> string \<Rightarrow> bool" where
  "step_cmd rt raw a =
     (\<exists>cmd. decodes rt raw cmd \<and> cmd_kind cmd = PStr ''step'' \<and>
            map_of cmd (PStr ''action'') = Some (PStr a))"

text \<open>The entry of the mock's script for an action text.\<close>

definition scripted :: "string \<Rightarrow> pyval" where
  "scripted a = (case map_of STEP_RESPONSES (PStr a) of Some resp \<Rightarrow> resp | None \<Rightarrow> DEFAULT_STEP)"

section \<open>Lemmas on the heap\<close>

lemma getattr_set_attr_if_present:
  "py_getattr (set_attr_if_present e files attr h) v name =
     (if v = e \<and> name = attr \<and> py_hasattr h e attr then Some files else py_getattr h v name)"
  by (auto simp: set_attr_if_present_def py_getattr_def py_setattr_def py_hasattr_def
           split: pyval.splits)

lemma getattr_set_attrs:
  "py_getattr (set_attrs h e files) v name =
     (if v = e \<and> name \<in> set task_attrs \<and> py_hasattr h e name then Some files
      else py_getattr h v name)"
  by (auto simp: set_attrs_def task_attrs_def getattr_set_attr_if_present py_hasattr_def)

lemma hasattr_set_attrs: "py_hasattr (set_attrs h e files) v name = py_hasattr h v name"
  by (auto simp: py_hasattr_def getattr_set_attrs)

lemma delegate_set_attrs: "delegate (set_attrs h e files) v = delegate h v"
  by (simp add: delegate_def getattr_set_attrs task_attrs_def split: option.splits)

lemma layers_set_attrs: "layers n (set_attrs h e files) v = layers n h v"
  by (induction n h v arbitrary: rule: layers.induct) (simp_all add: delegate_set_attrs)

lemma narrowed_set_attrs_self: "narrowed (set_attrs h e files) files e"
  by (simp add: narrowed_def task_attrs_def py_hasattr_def getattr_set_attrs)

lemma narrowed_set_attrs_keep:
  "narrowed h files v \<Longrightarrow> narrowed (set_attrs h e files) files v"
  by (auto simp add: narrowed_def task_attrs_def py_hasattr_def getattr_set_attrs)

lemma layers_narrow_layers: "layers n (narrow_layers files ls h) v = layers n h v"
  by (induction ls arbitrary: h) (simp_all add: narrow_layers_def layers_set_attrs)

lemma narrowed_narrow_layers_keep:
  "narrowed h files v \<Longrightarrow> narrowed (narrow_layers files ls h) files v"
  by (induction ls arbitrary: h) (simp_all add: narrow_layers_def narrowed_set_attrs_keep)

lemma narrowed_narrow_layers:
  "v \<in> set ls \<Longrightarrow> narrowed (narrow_layers files ls h) files v"
proof (induction ls arbitrary: h)
  case Nil
  then show ?case by simp
next
  case (Cons a ls)
  show ?case
  proof (cases "v = a")
    case True
    have "narrowed (narrow_layers files ls (set_attrs h a files)) files a"
      by (rule narrowed_narrow_layers_keep) (rule narrowed_set_attrs_self)
    with True show ?thesis by (simp add: narrow_layers_def)
  next
    case False
    with Cons.prems have "v \<in> set ls" by simp
    from Cons.IH [OF this] show ?thesis by (simp add: narrow_layers_def)
  qed
qed

lemma set_game_files_layers:
  "layers n h e = Some ls \<Longrightarrow> set_game_files h e files = Some (narrow_layers files ls h)"
proof (induction n arbitrary: h e ls)
  case 0
  then show ?case
    by (cases e) (simp_all add: set_game_files.simps narrow_layers_def)
next
  case (Suc n)
  show ?case
  proof (cases "e = PNone")
    case True
    with Suc.prems show ?thesis
      by (simp add: set_game_files.simps narrow_layers_def)
  next
    case False
    with Suc.prems obtain ls' where ls: "ls = e # ls'"
      and rest: "layers n h (delegate h e) = Some ls'"
      by (cases e) auto
    let ?h1 = "set_attrs h e files"
    from rest have "layers n ?h1 (delegate ?h1 e) = Some ls'"
      by (simp add: layers_set_attrs delegate_set_attrs)
    from Suc.IH [OF this]
    have "set_game_files ?h1 (delegate ?h1 e) files = Some (narrow_layers files ls' ?h1)" .
    with False ls show ?thesis
      by (subst set_game_files.simps) (simp add: narrow_layers_def)
  qed
qed

lemma set_game_files_finite:
  assumes "set_game_files h e files = Some h'"
  shows "finite_chain h e"
proof (rule set_game_files.raw_induct
    [where P = "\<lambda>h e files h'. finite_chain h e", OF _ assms])
  fix sgf :: "heap \<Rightarrow> pyval \<Rightarrow> pyval \<Rightarrow> heap option" and h e files h'
  assume IH: "\<And>h e files y. sgf h e files = Some y \<Longrightarrow> finite_chain h e"
    and step: "(if e = PNone then Some h
                else sgf (set_attrs h e files) (delegate (set_attrs h e files) e) files)
               = Some h'"
  show "finite_chain h e"
  proof (cases "e = PNone")
    case True
    have "layers 0 h PNone \<noteq> None" by simp
    with True show ?thesis unfolding finite_chain_def by blast
  next
    case False
    with step have "sgf (set_attrs h e files) (delegate (set_attrs h e files) e) files = Some h'"
      by simp
    from IH [OF this] obtain n where "layers n (set_attrs h e files) (delegate h e) \<noteq> None"
      unfolding finite_chain_def delegate_set_attrs by blast
    then have "layers n h (delegate h e) \<noteq> None" by (simp add: layers_set_attrs)
    with False have "layers (Suc n) h e \<noteq> None" by (cases e) simp_all
    then show ?thesis unfolding finite_chain_def by blast
  qed
qed

lemma cyclic_layers: "layers n cyclic_heap (PRef 0) = None"
  by (induction n) (simp_all add: delegate_def py_getattr_def cyclic_heap_def)

lemma demo_wrapped_layers:
  "layers (Suc (Suc (Suc 0))) demo_wrapped (PRef 2) = Some [PRef 2, PRef 3, PRef 1]"
  by (simp add: delegate_def py_getattr_def demo_wrapped_def demo_built_def demo_heap_def)

section \<open>Lemmas on the handlers\<close>

lemma handle_line_decodes: "decodes rt raw cmd \<Longrightarrow> handle_line rt raw st = dispatch rt cmd st"
  by (simp add: handle_line_def decodes_def)

lemma engine_call_eq:
  "engine_call c f st =
     (fst (f (heap st)),
      st\<lparr>heap := snd (f (heap st)), calls := calls st @ [(c, \<not> isl (fst (f (heap st))))]\<rparr>)"
  by (simp add: engine_call_def split: prod.splits)

lemma serializable_init_response: "serializable (init_response n)"
  by (simp add: init_response_def)

lemma serializable_ok_response: "serializable ok_response"
  by (simp add: ok_response_def)

lemma send_ok_response: "send ok_response st = Inr (st\<lparr>out := out st @ [ok_response]\<rparr>)"
  by (simp add: send_def serializable_ok_response)

lemma send_init_response:
  "send (init_response n) st = Inr (st\<lparr>out := out st @ [init_response n]\<rparr>)"
  by (simp add: send_def serializable_init_response)

lemma init_catalog_cases:
  assumes "init_catalog rt st = (r, st')"
  shows "env st' = env st \<and> tw_env st' = tw_env st \<and> heap st' = heap st \<and> calls st' = calls st \<and>
         (case r of
            Some e \<Rightarrow> game_files st' = game_files st \<and> out st' = out st
          | None \<Rightarrow> (\<exists>gf xs. py_getattr (heap st) (tw_env st) ''game_files'' = Some gf \<and>
                     py_iter gf = Some xs \<and> game_files st' = PList xs \<and>
                     out st' = out st @ [init_response (length xs)]))"
  using assms
  by (auto simp: init_catalog_def send_init_response py_list_def split: option.splits sum.splits)

lemma init_config_frame:
  assumes "init_config rt cmd st = (r, st2)"
  shows "env st2 = env st \<and> tw_env st2 = tw_env st \<and> game_files st2 = game_files st \<and>
         out st2 = out st \<and>
         (\<exists>cs. calls st2 = calls st @ cs \<and> (Construct, True) \<notin> set cs \<and> (InitEnv, True) \<notin> set cs)"
  using assms
  by (auto simp: init_config_def build_config_def Let_def engine_call_eq
           split: prod.splits sum.splits if_splits)

text \<open>The \<^verbatim>\<open>try\<close> block of \<^verbatim>\<open>init\<close>, stage by stage.\<close>

lemma init_body_stages:
  assumes "init_body rt cmd st = (r, st1)"
  shows "(init_config rt cmd st = (Inl e, st2) \<longrightarrow> r = Some e \<and> st1 = st2) \<and>
         (init_config rt cmd st = (Inr (config, split), st2) \<longrightarrow>
            (alfred_tw_env rt config split (heap st2) = (Inl e, h3) \<longrightarrow>
               r = Some e \<and> tw_env st1 = tw_env st \<and> env st1 = env st \<and> heap st1 = h3 \<and>
               game_files st1 = game_files st \<and> out st1 = out st \<and>
               calls st1 = calls st2 @ [(Construct, False)]) \<and>
            (alfred_tw_env rt config split (heap st2) = (Inr t, h3) \<longrightarrow>
               tw_env st1 = PRef t \<and>
               (init_env rt (PRef t) h3 = (Inl e, h4) \<longrightarrow>
                  r = Some e \<and> env st1 = env st \<and> heap st1 = h4 \<and>
                  game_files st1 = game_files st \<and> out st1 = out st \<and>
                  calls st1 = calls st2 @ [(Construct, True), (InitEnv, False)]) \<and>
               (init_env rt (PRef t) h3 = (Inr v, h4) \<longrightarrow>
                  env st1 = v \<and> heap st1 = h4 \<and>
                  calls st1 = calls st2 @ [(Construct, True), (InitEnv, True)] \<and>
                  (case r of
                     Some x \<Rightarrow> game_files st1 = game_files st \<and> out st1 = out st
                   | None \<Rightarrow> (\<exists>gf xs. py_getattr h4 (PRef t) ''game_files'' = Some gf \<and>
                        py_iter gf = Some xs \<and> game_files st1 = PList xs \<and>
                        out st1 = out st @ [init_response (length xs)])))))"
proof (intro conjI impI)
  assume "init_config rt cmd st = (Inl e, st2)"
  with assms show "r = Some e" "st1 = st2" by (simp_all add: init_body_def)
next
  assume c: "init_config rt cmd st = (Inr (config, split), st2)"
  note f2 = init_config_frame [OF c]
  {
    assume "alfred_tw_env rt config split (heap st2) = (Inl e, h3)"
    with assms c f2
    show "r = Some e" "tw_env st1 = tw_env st" "env st1 = env st" "heap st1 = h3"
      "game_files st1 = game_files st" "out st1 = out st"
      "calls st1 = calls st2 @ [(Construct, False)]"
      by (auto simp: init_body_def engine_call_eq)
  }
  assume t: "alfred_tw_env rt config split (heap st2) = (Inr t, h3)"
  let ?st3 = "st2\<lparr>heap := h3, calls := calls st2 @ [(Construct, True)], tw_env := PRef t\<rparr>"
  from assms c t have b: "(case engine_call InitEnv (init_env rt (PRef t)) ?st3 of
        (Inl e, st4) \<Rightarrow> (Some e, st4)
      | (Inr v, st4) \<Rightarrow> init_catalog rt (st4\<lparr>env := v\<rparr>)) = (r, st1)"
    by (simp add: init_body_def engine_call_eq)
  show "tw_env st1 = PRef t"
    using b by (auto simp: engine_call_eq split: sum.splits dest!: init_catalog_cases)
  {
    assume "init_env rt (PRef t) h3 = (Inl e, h4)"
    with b f2
    show "r = Some e" "env st1 = env st" "heap st1 = h4"
      "game_files st1 = game_files st" "out st1 = out st"
      "calls st1 = calls st2 @ [(Construct, True), (InitEnv, False)]"
      by (auto simp: engine_call_eq)
  }
  assume v: "init_env rt (PRef t) h3 = (Inr v, h4)"
  let ?st4 = "?st3\<lparr>heap := h4, calls := calls ?st3 @ [(InitEnv, True)], env := v\<rparr>"
  from b v have ic: "init_catalog rt ?st4 = (r, st1)" by (simp add: engine_call_eq)
  note k = init_catalog_cases [OF ic]
  from k show "env st1 = v" "heap st1 = h4"
    "calls st1 = calls st2 @ [(Construct, True), (InitEnv, True)]"
    by simp_all
  from k f2 show "case r of
       Some x \<Rightarrow> game_files st1 = game_files st \<and> out st1 = out st
     | None \<Rightarrow> (\<exists>gf xs. py_getattr h4 (PRef t) ''game_files'' = Some gf \<and>
          py_iter gf = Some xs \<and> game_files st1 = PList xs \<and>
          out st1 = out st @ [init_response (length xs)])"
    by (cases r) auto
qed

lemma init_body_cases:
  assumes "init_body rt cmd st = (r, st')"
  shows "\<exists>cs. calls st' = calls st @ cs \<and>
         (case r of
            Some e \<Rightarrow>
              game_files st' = game_files st \<and> out st' = out st \<and>
              (if (Construct, True) \<in> set cs then (\<exists>t. tw_env st' = PRef t)
               else tw_env st' = tw_env st \<and> env st' = env st) \<and>
              (env st' = env st \<or> (InitEnv, True) \<in> set cs)
          | None \<Rightarrow>
              (\<exists>t xs. tw_env st' = PRef t \<and> (InitEnv, True) \<in> set cs \<and>
                 game_files st' = PList xs \<and> out st' = out st @ [init_response (length xs)]))"
proof -
  obtain rc st2 where c: "init_config rt cmd st = (rc, st2)" by (cases "init_config rt cmd st")
  from init_config_frame [OF c] obtain cs2 where
    f2: "env st2 = env st" "tw_env st2 = tw_env st" "game_files st2 = game_files st"
      "out st2 = out st" "calls st2 = calls st @ cs2" "(Construct, True) \<notin> set cs2"
      "(InitEnv, True) \<notin> set cs2"
    by blast
  show ?thesis
  proof (cases rc)
    case (Inl e)
    with init_body_stages [OF assms, where e = e and ?st2.0 = st2] c have "r = Some e" "st' = st2" by simp_all
    with f2 show ?thesis by simp
  next
    case (Inr cs)
    obtain config split where cs: "cs = (config, split)" by (cases cs)
    note c' = c [unfolded Inr cs]
    obtain r3 h3 where a: "alfred_tw_env rt config split (heap st2) = (r3, h3)"
      by (cases "alfred_tw_env rt config split (heap st2)")
    show ?thesis
    proof (cases r3)
      case (Inl e)
      from init_body_stages [OF assms, where config = config and split = split and ?st2.0 = st2
          and e = e and ?h3.0 = h3] c' a [unfolded Inl] f2
      show ?thesis by simp
    next
      case t: (Inr t)
      obtain r4 h4 where i: "init_env rt (PRef t) h3 = (r4, h4)"
        by (cases "init_env rt (PRef t) h3")
      show ?thesis
      proof (cases r4)
        case (Inl e)
        from init_body_stages [OF assms, where config = config and split = split and ?st2.0 = st2
            and ?h3.0 = h3 and t = t and e = e and ?h4.0 = h4] c' a [unfolded t]
          i [unfolded Inl] f2
        show ?thesis by simp
      next
        case (Inr v)
        from init_body_stages [OF assms, where config = config and split = split and ?st2.0 = st2
            and ?h3.0 = h3 and t = t and ?h4.0 = h4 and v = v] c' a [unfolded t]
          i [unfolded Inr] f2
        show ?thesis by (cases r) auto
      qed
    qed
  qed
qed

text \<open>What the log of a run of the \<^verbatim>\<open>try\<close> block says about the session.\<close>

lemma init_body_origin:
  assumes "init_body rt cmd st = (r, st1)"
  shows "((Construct, True) \<in> set (new_calls st st1) \<longrightarrow>
            (\<exists>config split st2 t h3.
               init_config rt cmd st = (Inr (config, split), st2) \<and>
               alfred_tw_env rt config split (heap st2) = (Inr t, h3) \<and> tw_env st1 = PRef t)) \<and>
         ((InitEnv, True) \<in> set (new_calls st st1) \<longrightarrow>
            (\<exists>config split st2 t h3 v h4.
               init_config rt cmd st = (Inr (config, split), st2) \<and>
               alfred_tw_env rt config split (heap st2) = (Inr t, h3) \<and>
               init_env rt (PRef t) h3 = (Inr v, h4) \<and> tw_env st1 = PRef t \<and> env st1 = v))"
proof -
  obtain rc st2 where c: "init_config rt cmd st = (rc, st2)" by (cases "init_config rt cmd st")
  from init_config_frame [OF c] obtain cs2 where
    f2: "calls st2 = calls st @ cs2" "(Construct, True) \<notin> set cs2" "(InitEnv, True) \<notin> set cs2"
    by blast
  show ?thesis
  proof (cases rc)
    case (Inl e)
    with init_body_stages [OF assms, where e = e and ?st2.0 = st2] c have "st1 = st2" by simp
    with f2 show ?thesis by (simp add: new_calls_def)
  next
    case (Inr cs)
    obtain config split where cs: "cs = (config, split)" by (cases cs)
    note c' = c [unfolded Inr cs]
    obtain r3 h3 where a: "alfred_tw_env rt config split (heap st2) = (r3, h3)"
      by (cases "alfred_tw_env rt config split (heap st2)")
    show ?thesis
    proof (cases r3)
      case (Inl e)
      from init_body_stages [OF assms, where config = config and split = split and ?st2.0 = st2
          and e = e and ?h3.0 = h3] c' a [unfolded Inl]
      have "calls st1 = calls st2 @ [(Construct, False)]" by simp
      with f2 show ?thesis by (simp add: new_calls_def)
    next
      case t: (Inr t)
      note a' = a [unfolded t]
      obtain r4 h4 where i: "init_env rt (PRef t) h3 = (r4, h4)"
        by (cases "init_env rt (PRef t) h3")
      show ?thesis
      proof (cases r4)
        case (Inl e)
        from init_body_stages [OF assms, where config = config and split = split and ?st2.0 = st2
            and ?h3.0 = h3 and t = t and e = e and ?h4.0 = h4] c' a' i [unfolded Inl]
        have "tw_env st1 = PRef t" "calls st1 = calls st2 @ [(Construct, True), (InitEnv, False)]"
          by simp_all
        with f2 c' a' show ?thesis by (simp add: new_calls_def)
      next
        case (Inr v)
        note i' = i [unfolded Inr]
        from init_body_stages [OF assms, where config = config and split = split and ?st2.0 = st2
            and ?h3.0 = h3 and t = t and ?h4.0 = h4 and v = v] c' a' i'
        have "tw_env st1 = PRef t" "env st1 = v" by simp_all
        with c' a' i' show ?thesis by blast
      qed
    qed
  qed
qed

lemma send_error_fields [simp]:
  "env (send_error m st) = env st" "tw_env (send_error m st) = tw_env st"
  "game_files (send_error m st) = game_files st" "heap (send_error m st) = heap st"
  "calls (send_error m st) = calls st" "out (send_error m st) = out st @ [error_response m]"
  by (simp_all add: send_error_def)

lemma send_fields:
  "send d st = Inr st' \<Longrightarrow>
     env st' = env st \<and> tw_env st' = tw_env st \<and> game_files st' = game_files st \<and>
     heap st' = heap st \<and> calls st' = calls st \<and> out st' = out st @ [d] \<and> serializable d"
  by (auto simp: send_def split: if_splits)

lemma narrow_tasks_frame:
  "narrow_tasks cmd st = Some (r, st') \<Longrightarrow>
     env st' = env st \<and> tw_env st' = tw_env st \<and> game_files st' = game_files st \<and>
     out st' = out st \<and> calls st' = calls st"
  by (auto simp: narrow_tasks_def Let_def split: if_splits pyval.splits option.splits)

lemma reset_body_frame:
  assumes "reset_body rt cmd st = Some (r, st')"
  shows "env st' = env st \<and> tw_env st' = tw_env st \<and> game_files st' = game_files st \<and>
         (\<exists>cs. calls st' = calls st @ cs)"
proof (cases "narrow_tasks cmd st")
  case None
  with assms show ?thesis by (simp add: reset_body_def)
next
  case (Some a)
  obtain r1 st1 where a: "a = (r1, st1)" by (cases a)
  note f1 = narrow_tasks_frame [OF Some [unfolded a]]
  show ?thesis
  proof (cases r1)
    case (Some e)
    with assms \<open>narrow_tasks cmd st = Some a\<close> a have "st' = st1" by (simp add: reset_body_def)
    with f1 show ?thesis by simp
  next
    case None
    with assms \<open>narrow_tasks cmd st = Some a\<close> a f1 show ?thesis
      by (auto simp: reset_body_def engine_call_eq split: sum.splits dest!: send_fields)
  qed
qed

lemma do_reset_frame:
  "do_reset rt cmd st = Some st' \<Longrightarrow>
     env st' = env st \<and> tw_env st' = tw_env st \<and> game_files st' = game_files st \<and>
     (\<exists>cs. calls st' = calls st @ cs)"
  by (auto simp: do_reset_def split: if_splits option.splits dest!: reset_body_frame)

lemma step_body_frame:
  "step_body rt cmd st = (r, st') \<Longrightarrow>
     env st' = env st \<and> tw_env st' = tw_env st \<and> game_files st' = game_files st \<and>
     (\<exists>cs. calls st' = calls st @ cs)"
  by (auto simp: step_body_def Let_def engine_call_eq split: sum.splits dest!: send_fields)

lemma do_step_frame:
  "env (do_step rt cmd st) = env st \<and> tw_env (do_step rt cmd st) = tw_env st \<and>
   game_files (do_step rt cmd st) = game_files st \<and>
   (\<exists>cs. calls (do_step rt cmd st) = calls st @ cs)"
  by (cases "step_body rt cmd st")
     (auto simp: do_step_def split: option.splits dest!: step_body_frame)

lemma close_engine_frame:
  "env (close_engine rt st) = env st \<and> tw_env (close_engine rt st) = tw_env st \<and>
   game_files (close_engine rt st) = game_files st \<and> out (close_engine rt st) = out st \<and>
   (\<exists>cs. calls (close_engine rt st) = calls st @ cs)"
  by (simp add: close_engine_def engine_call_eq)

lemma do_init_inv: "session_inv st \<Longrightarrow> session_inv (do_init rt cmd st)"
proof -
  assume inv: "session_inv st"
  obtain r st' where b: "init_body rt cmd st = (r, st')" by (cases "init_body rt cmd st")
  from init_body_cases [OF b] inv have "session_inv st'"
    by (cases r) (auto simp: session_inv_def split: if_splits)
  with b show ?thesis by (cases r) (auto simp: do_init_def session_inv_def)
qed

lemma dispatch_inv:
  assumes "dispatch rt cmd st = Some (st', c)" and "session_inv st"
  shows "session_inv st'"
proof -
  have r: "\<And>s. do_reset rt cmd st = Some s \<Longrightarrow> session_inv s"
    using assms(2) by (auto simp: session_inv_def dest!: do_reset_frame)
  have s: "session_inv (do_step rt cmd st)"
    using assms(2) do_step_frame [of rt cmd st] by (auto simp: session_inv_def)
  have c: "session_inv (close_engine rt st)"
    using assms(2) close_engine_frame [of rt st] by (auto simp: session_inv_def)
  have e: "\<And>m. session_inv (send_error m st)"
    using assms(2) by (simp add: session_inv_def)
  have sd: "\<And>d s s'. send d s = Inr s' \<Longrightarrow> session_inv s \<Longrightarrow> session_inv s'"
    by (auto simp: session_inv_def dest!: send_fields)
  from assms show ?thesis
    unfolding dispatch_def Let_def
    by (auto split: if_splits sum.splits intro: do_init_inv r s c e sd)
qed

lemma handle_line_inv:
  assumes "handle_line rt raw st = Some (st', c)" and "session_inv st"
  shows "session_inv st'"
  using assms
  by (auto simp: handle_line_def Let_def session_inv_def [of "send_error _ _"]
           split: if_splits loaded.splits pyval.splits dest: dispatch_inv)
     (auto simp: session_inv_def)

lemma main_loop_inv:
  "main_loop rt ls st = Some (st', c) \<Longrightarrow> session_inv st \<Longrightarrow> session_inv st'"
proof (induction ls arbitrary: st)
  case Nil
  then show ?case by simp
next
  case (Cons l ls)
  then show ?case
    by (auto split: option.splits prod.splits ctl.splits dest: handle_line_inv)
qed

lemma init_state_inv: "session_inv (init_state h)"
  by (simp add: session_inv_def init_state_def)

lemma main_loop_append:
  "main_loop rt pre st = Some (st1, Continue) \<Longrightarrow> main_loop rt (pre @ ls) st = main_loop rt ls st1"
  by (induction pre arbitrary: st) (auto split: option.splits prod.splits ctl.splits)

section \<open>The example engine at work\<close>

lemma dropWhile_hd: "xs \<noteq> [] \<Longrightarrow> \<not> P (hd xs) \<Longrightarrow> dropWhile P xs = xs"
  by (cases xs) auto

lemma deep_text_hd: "hd deep_text = CHR ''[''" "last deep_text = CHR ''[''" "deep_text \<noteq> []"
  by (simp_all add: deep_text_def)

lemma neq_deep_text [simp]:
  "hd s \<noteq> CHR ''['' \<Longrightarrow> (s = deep_text) = False"
  "hd s \<noteq> CHR ''['' \<Longrightarrow> (deep_text = s) = False"
  using deep_text_hd by auto

lemma py_strip_line_of:
  assumes "s \<noteq> []" "\<not> py_isspace (hd s)" "\<not> py_isspace (last s)"
  shows "py_strip (line_of s) = s"
proof -
  from assms have 1: "dropWhile py_isspace (line_of s) = line_of s"
    by (intro dropWhile_hd) (simp_all add: line_of_def)
  have 2: "dropWhile py_isspace (rev s) = rev s"
    using assms by (intro dropWhile_hd) (simp_all add: hd_rev)
  have "py_isspace (CHR 0x0A)" by (simp add: py_isspace_def whitespace_def)
  then have "dropWhile py_isspace (rev (line_of s)) = rev s"
    using 2 by (simp add: line_of_def)
  with 1 show ?thesis by (simp add: py_strip_def)
qed

lemma decodes_init: "decodes demo_rt init_line [(PStr ''cmd'', PStr ''init'')]"
  unfolding decodes_def init_line_def
  by (subst py_strip_line_of; simp add: py_isspace_def whitespace_def demo_rt_def demo_loads_def demo_table_def)+

lemma decodes_init_broken: "decodes broken_rt init_line [(PStr ''cmd'', PStr ''init'')]"
  using decodes_init by (simp add: decodes_def broken_rt_def)

lemma demo_init_body:
  "init_body demo_rt [(PStr ''cmd'', PStr ''init'')] (init_state demo_heap) = (None, demo_ready)"
  by (simp add: init_body_def init_config_def engine_call_eq build_config_def init_catalog_def Let_def
      dict_get_def default_config_def join3_def bind_exn_def demo_rt_def init_state_def
      py_getattr_def py_list_def demo_catalog_def send_init_response demo_ready_def
      demo_wrapped_def demo_built_def demo_heap_def numeral_2_eq_2)

lemma broken_init_body:
  "init_body broken_rt [(PStr ''cmd'', PStr ''init'')] (init_state demo_heap) =
     (Some (External ''init_env failed''), demo_half\<lparr>out := []\<rparr>)"
  by (simp add: init_body_def init_config_def engine_call_eq build_config_def init_catalog_def Let_def
      dict_get_def default_config_def join3_def bind_exn_def demo_rt_def broken_rt_def init_state_def
      demo_half_def demo_built_def demo_heap_def)

lemma decodes_init_bare: "decodes bare_rt init_line [(PStr ''cmd'', PStr ''init'')]"
  using decodes_init by (simp add: decodes_def bare_rt_def)

lemma bare_init_body:
  "init_body bare_rt [(PStr ''cmd'', PStr ''init'')] (init_state demo_heap) =
     (Some AttributeError, demo_bare\<lparr>out := []\<rparr>)"
  by (simp add: init_body_def init_config_def engine_call_eq build_config_def init_catalog_def Let_def
      dict_get_def default_config_def join3_def bind_exn_def demo_rt_def bare_rt_def init_state_def
      py_getattr_def demo_bare_def demo_heap_def)

lemma broken_init_config:
  "init_config broken_rt [(PStr ''cmd'', PStr ''init'')] (init_state demo_heap) =
     (Inr (demo_config, demo_split), demo_imported)"
  by (simp add: init_config_def engine_call_eq build_config_def Let_def dict_get_def
      default_config_def join3_def bind_exn_def demo_rt_def broken_rt_def init_state_def
      demo_config_def demo_split_def demo_imported_def)

lemma bare_init_config:
  "init_config bare_rt [(PStr ''cmd'', PStr ''init'')] (init_state demo_heap) =
     (Inr (demo_config, demo_split), demo_imported)"
  by (simp add: init_config_def engine_call_eq build_config_def Let_def dict_get_def
      default_config_def join3_def bind_exn_def demo_rt_def bare_rt_def init_state_def
      demo_config_def demo_split_def demo_imported_def)

lemma demo_decodes:
  assumes "map_of demo_table s = Some (PDict cmd)" "s \<noteq> []"
    "\<not> py_isspace (hd s)" "\<not> py_isspace (last s)"
  shows "decodes demo_rt (line_of s) cmd" "decodes broken_rt (line_of s) cmd"
  using assms
  by (simp_all add: decodes_def py_strip_line_of demo_rt_def broken_rt_def demo_loads_def)

lemma decodes_init_missing:
  "decodes demo_rt init_missing_line
     [(PStr ''cmd'', PStr ''init''), (PStr ''config_path'', PStr ''missing.yaml'')]"
  unfolding init_missing_line_def
  by (rule demo_decodes) (simp_all add: demo_table_def py_isspace_def whitespace_def)

lemma missing_init_body:
  "init_body demo_rt [(PStr ''cmd'', PStr ''init''), (PStr ''config_path'', PStr ''missing.yaml'')]
     demo_ready =
     (Some (External ''No such file''), demo_missing\<lparr>out := out demo_ready\<rparr>)"
  by (simp add: init_body_def init_config_def engine_call_eq build_config_def Let_def
      dict_get_def demo_rt_def demo_missing_def demo_ready_def)

lemma decodes_reset: "decodes broken_rt reset_line [(PStr ''cmd'', PStr ''reset'')]"
  unfolding reset_line_def
  by (rule demo_decodes) (simp_all add: demo_table_def py_isspace_def whitespace_def)

lemma decodes_reset_demo: "decodes demo_rt reset_line [(PStr ''cmd'', PStr ''reset'')]"
  unfolding reset_line_def
  by (rule demo_decodes) (simp_all add: demo_table_def py_isspace_def whitespace_def)

lemma decodes_shutdown: "decodes demo_rt shutdown_line [(PStr ''cmd'', PStr ''shutdown'')]"
  unfolding shutdown_line_def
  by (rule demo_decodes) (simp_all add: demo_table_def py_isspace_def whitespace_def)

lemma decodes_fly: "decodes demo_rt fly_line [(PStr ''cmd'', PStr ''fly'')]"
  unfolding fly_line_def
  by (rule demo_decodes) (simp_all add: demo_table_def py_isspace_def whitespace_def)


lemma demo_init_line:
  "handle_line demo_rt init_line (init_state demo_heap) = Some (demo_ready, Continue)"
  by (simp add: handle_line_decodes [OF decodes_init] dispatch_def dict_get_def do_init_def
      demo_init_body)

lemma broken_init_line:
  "handle_line broken_rt init_line (init_state demo_heap) = Some (demo_half, Continue)"
  unfolding handle_line_decodes [OF decodes_init_broken] dispatch_def do_init_def broken_init_body
  by (simp add: dict_get_def send_error_def demo_half_def broken_rt_def demo_rt_def)

lemma mock_loop_append:
  "mock_loop rt pre sent = (sent1, Continue) \<Longrightarrow>
     mock_loop rt (pre @ ls) sent = mock_loop rt ls sent1"
  by (induction pre arbitrary: sent) (auto split: prod.splits ctl.splits)

lemma mock_handle_line_decodes:
  "decodes rt raw cmd \<Longrightarrow> mock_handle_line rt raw sent = mock_dispatch rt cmd sent"
  by (simp add: mock_handle_line_def decodes_def)

lemma dispatch_shutdown:
  "cmd_kind cmd = PStr ''shutdown'' \<Longrightarrow>
     dispatch rt cmd st = Some ((close_engine rt st)\<lparr>out := out st @ [ok_response]\<rparr>, Break)"
  using close_engine_frame [of rt st]
  by (simp add: dispatch_def cmd_kind_def send_ok_response)

lemma mock_dispatch_shutdown:
  "cmd_kind cmd = PStr ''shutdown'' \<Longrightarrow> mock_dispatch rt cmd sent = (sent @ [ok_response], Break)"
  by (simp add: mock_dispatch_def cmd_kind_def)

lemma demo_close: "close_engine demo_rt demo_ready = demo_ready\<lparr>calls := calls demo_ready @ [(Close, False)]\<rparr>"
  by (simp add: close_engine_def engine_call_eq demo_ready_def demo_rt_def)

lemma mock_init_line: "mock_loop demo_rt [init_line] [] = ([init_response 3], Continue)"
  using mock_handle_line_decodes [OF decodes_init, of "[]"]
  by (simp add: mock_dispatch_def dict_get_def MOCK_TASKS_def numeral_3_eq_3)

lemma garbled_strip:
  "py_strip garbled_line \<noteq> [] \<and>
   json_loads demo_rt (py_strip garbled_line) = DecodeError ''Expecting value: line 1 column 1 (char 0)''"
proof -
  have "py_strip garbled_line = drop 0 (butlast garbled_line)"
    unfolding garbled_line_def
    by (subst py_strip_line_of) (simp_all add: py_isspace_def whitespace_def line_of_def)
  then show ?thesis
    by (simp add: garbled_line_def line_of_def demo_rt_def demo_loads_def demo_table_def)
qed

lemma decodes_empty_object: "decodes demo_rt empty_object_line []"
  unfolding empty_object_line_def
  by (rule demo_decodes) (simp_all add: demo_table_def py_isspace_def whitespace_def)

lemma new_calls_append: "calls st' = calls st @ cs \<Longrightarrow> new_calls st st' = cs"
  by (simp add: new_calls_def)

lemma dispatch_init:
  "cmd_kind cmd = PStr ''init'' \<Longrightarrow> dispatch rt cmd st = Some (do_init rt cmd st, Continue)"
  by (simp add: dispatch_def cmd_kind_def)

lemma decodes_reset_b:
  "decodes demo_rt reset_b_line [(PStr ''cmd'', PStr ''reset''), (PStr ''game_file'', PStr ''b.tw-pddl'')]"
  unfolding reset_b_line_def
  by (rule demo_decodes) (simp_all add: demo_table_def py_isspace_def whitespace_def)

lemma demo_narrow_tasks:
  "narrow_tasks [(PStr ''cmd'', PStr ''reset''), (PStr ''game_file'', PStr ''b.tw-pddl'')] demo_ready =
     Some (None, demo_ready\<lparr>heap := demo_narrowed\<rparr>)"
proof -
  have "layers (Suc (Suc (Suc 0))) (py_setattr demo_wrapped (PRef 1) ''game_files'' demo_files) (PRef 2) =
          Some [PRef 2, PRef 3, PRef 1]"
    by (simp add: delegate_def py_getattr_def py_setattr_def demo_wrapped_def demo_built_def demo_heap_def)
  from set_game_files_layers [OF this, of demo_files] show ?thesis
    by (simp add: narrow_tasks_def Let_def dict_get_def demo_ready_def demo_narrowed_def demo_files_def)
qed

lemma split_nl_first: "(case split_nl s of [] \<Rightarrow> [] | l # ls \<Rightarrow> l) = first_line s"
  by (induction s) (auto simp: first_line_def split: list.splits)

lemma demo_strip_obs: "py_strip demo_obs = tl demo_obs"
  by (simp add: py_strip_def demo_obs_def py_isspace_def whitespace_def)

lemma demo_reset_response_eq:
  "reset_response demo_rt (PTuple [PList [PStr demo_obs], demo_infos]) = Inr demo_reset_response"
  by (simp add: reset_response_def py_unpack_def bind_exn_def obs_text_of_def admissible_of_def
      py_get_def dict_get_def demo_infos_def goal_of_def split_nl_first demo_strip_obs
      demo_reset_response_def)
     (simp add: demo_obs_def first_line_def)

lemma demo_reset_b:
  "handle_line demo_rt reset_b_line demo_ready = Some (demo_after_reset, Continue)"
proof -
  have s: "serializable demo_reset_response"
    by (simp add: demo_reset_response_def)
  have e: "env_reset demo_rt = (\<lambda>e h. (Inr (PTuple [PList [PStr demo_obs], demo_infos]), h))"
    by (simp add: demo_rt_def)
  have "reset_body demo_rt [(PStr ''cmd'', PStr ''reset''), (PStr ''game_file'', PStr ''b.tw-pddl'')]
          demo_ready = Some (None, demo_after_reset)"
    by (simp add: reset_body_def demo_narrow_tasks engine_call_eq e demo_reset_response_eq send_def s
        demo_after_reset_def)
  then show ?thesis
    unfolding handle_line_decodes [OF decodes_reset_b]
    by (simp add: dispatch_def dict_get_def do_reset_def) (simp add: demo_ready_def)
qed






lemma delegate_setattr_game_files:
  "delegate (py_setattr h v ''game_files'' x) e = delegate h e"
  by (auto simp: delegate_def py_getattr_def py_setattr_def split: pyval.splits option.splits)

lemma layers_setattr_game_files: "layers n (py_setattr h v ''game_files'' x) e = layers n h e"
proof (induction n arbitrary: e)
  case 0
  then show ?case by (cases e) simp_all
next
  case (Suc n)
  then show ?case by (cases e) (simp_all add: delegate_setattr_game_files)
qed

lemma getattr_narrow_layers_keep:
  "py_getattr h v a = Some files \<Longrightarrow> py_getattr (narrow_layers files ls h) v a = Some files"
  by (induction ls arbitrary: h) (simp_all add: narrow_layers_def getattr_set_attrs)

lemma set_game_files_narrows:
  assumes "layers n h e = Some ls"
  shows "\<exists>h'. set_game_files h e files = Some h' \<and> layers n h' e = Some ls \<and>
              (\<forall>v \<in> set ls. narrowed h' files v)"
  using set_game_files_layers [OF assms, of files] assms
  by (simp add: layers_narrow_layers narrowed_narrow_layers)

lemma demo_ready_layers:
  "layers (Suc (Suc (Suc 0))) (heap demo_ready) (env demo_ready) = Some [PRef 2, PRef 3, PRef 1]"
  using demo_wrapped_layers by (simp add: demo_ready_def)

lemma error_response_status: "py_get (error_response m) ''status'' PNone = Inr (PStr ''error'')"
  by (simp add: error_response_def py_get_def dict_get_def)

lemma index0_seq:
  "is_seq v \<Longrightarrow> py_index0 v = Inr x \<Longrightarrow> \<exists>rest. py_iter v = Some (x # rest)"
  by (cases v; simp) (rename_tac xs, case_tac xs; simp)+

lemma obs_text_of_cases:
  "obs_text_of rt obs = Inr ot \<Longrightarrow>
     (if is_seq obs then (\<exists>rest. py_iter obs = Some (ot # rest)) else ot = PStr (py_str rt obs))"
  by (auto simp: obs_text_of_def dest: index0_seq split: if_splits)



lemma reset_response_cases:
  assumes "reset_response rt result = Inr resp"
  shows "\<exists>obs infos t adm.
           py_unpack 2 result = Inr [obs, infos] \<and>
           obs_text_of rt obs = Inr (PStr t) \<and>
           admissible_of infos = Inr adm \<and>
           resp = PDict [(PStr ''obs'', PStr t), (PStr ''admissible_commands'', adm),
                         (PStr ''goal'', PStr (first_line (py_strip t))),
                         (PStr ''done'', PBool False), (PStr ''score'', PInt 0)]"
  using assms
  by (auto simp: reset_response_def bind_exn_def goal_of_def split_nl_first
           split: sum.splits list.splits pyval.splits)


lemma reset_body_result:
  assumes "reset_body rt cmd st = Some (r, st')"
  shows "case r of
           Some e \<Rightarrow> out st' = out st
         | None \<Rightarrow> (\<exists>st1 result resp.
             narrow_tasks cmd st = Some (None, st1) \<and>
             fst (env_reset rt (env st1) (heap st1)) = Inr result \<and>
             heap st' = snd (env_reset rt (env st1) (heap st1)) \<and>
             reset_response rt result = Inr resp \<and> out st' = out st @ [resp])"
proof (cases "narrow_tasks cmd st")
  case None
  with assms show ?thesis by (simp add: reset_body_def)
next
  case (Some a)
  obtain r1 st1 where a: "a = (r1, st1)" by (cases a)
  note n = Some [unfolded a]
  from narrow_tasks_frame [OF n] have o1: "out st1 = out st" by simp
  show ?thesis
  proof (cases r1)
    case (Some e)
    with assms n o1 show ?thesis by (auto simp: reset_body_def)
  next
    case None
    with assms n o1 show ?thesis
      by (auto simp: reset_body_def engine_call_eq split: sum.splits dest!: send_fields)
  qed
qed

lemma step_body_result:
  assumes "step_body rt cmd st = (r, st')"
  shows "calls st' = calls st @
           [(Step (PList [step_action cmd]),
             \<not> isl (fst (env_step rt (env st) (PList [step_action cmd]) (heap st))))] \<and>
         heap st' = snd (env_step rt (env st) (PList [step_action cmd]) (heap st)) \<and>
         (case r of
            Some e \<Rightarrow> out st' = out st
          | None \<Rightarrow> (\<exists>result resp.
              fst (env_step rt (env st) (PList [step_action cmd]) (heap st)) = Inr result \<and>
              step_response rt result = Inr resp \<and> out st' = out st @ [resp]))"
  using assms
  by (auto simp: step_body_def Let_def engine_call_eq split: sum.splits dest!: send_fields)


lemma mock_step_default:
  "map_of cmd (PStr ''action'') = None \<Longrightarrow> mock_step cmd = Inr DEFAULT_STEP"
  by (simp add: mock_step_def dict_get_def STEP_RESPONSES_def)




lemma mock_plain:
  assumes "plain_cmd rt raw k"
  shows "k = ''init'' \<Longrightarrow> mock_handle_line rt raw sent = (sent @ [init_response 3], Continue)"
    and "k = ''reset'' \<Longrightarrow> mock_handle_line rt raw sent = (sent @ [mock_reset_response], Continue)"
    and "k = ''shutdown'' \<Longrightarrow> mock_handle_line rt raw sent = (sent @ [ok_response], Break)"
proof -
  from assms obtain cmd where d: "decodes rt raw cmd" and k: "cmd_kind cmd = PStr k"
    by (auto simp: plain_cmd_def)
  note h = mock_handle_line_decodes [OF d, of sent]
  show "k = ''init'' \<Longrightarrow> mock_handle_line rt raw sent = (sent @ [init_response 3], Continue)"
    using h k by (simp add: mock_dispatch_def cmd_kind_def MOCK_TASKS_def numeral_3_eq_3)
  show "k = ''reset'' \<Longrightarrow> mock_handle_line rt raw sent = (sent @ [mock_reset_response], Continue)"
    using h k by (simp add: mock_dispatch_def cmd_kind_def)
  show "k = ''shutdown'' \<Longrightarrow> mock_handle_line rt raw sent = (sent @ [ok_response], Break)"
    using h k by (simp add: mock_dispatch_def cmd_kind_def)
qed

lemma mock_step_text:
  "map_of cmd (PStr ''action'') = Some (PStr a) \<Longrightarrow> mock_step cmd = Inr (scripted a)"
  by (simp add: mock_step_def dict_get_def scripted_def)

lemma mock_step_cmd:
  assumes "step_cmd rt raw a"
  shows "mock_handle_line rt raw sent = (sent @ [scripted a], Continue)"
proof -
  from assms obtain cmd where d: "decodes rt raw cmd" and k: "cmd_kind cmd = PStr ''step''"
    and a: "map_of cmd (PStr ''action'') = Some (PStr a)"
    by (auto simp: step_cmd_def)
  from mock_handle_line_decodes [OF d, of sent] k mock_step_text [OF a] show ?thesis
    by (simp add: mock_dispatch_def cmd_kind_def)
qed

lemma mock_step_fallback:
  assumes "hashable act" and "act \<notin> fst ` set STEP_RESPONSES"
    and "map_of cmd (PStr ''action'') = Some act"
  shows "mock_step cmd = Inr DEFAULT_STEP"
proof -
  from assms(2) have "map_of STEP_RESPONSES act = None" by (simp add: map_of_eq_None_iff)
  with assms(1,3) show ?thesis by (simp add: mock_step_def dict_get_def)
qed

lemma scripted_values:
  "scripted ''go to desk 1'' =
     step_entry ''On the desk 1, you see a mug 1 and a pen 1.''
       [''take mug 1 from desk 1'', ''take pen 1 from desk 1'', ''go to shelf 1'', ''go to drawer 1'']
       False 0"
  "scripted ''take mug 1 from desk 1'' =
     step_entry ''You pick up the mug 1 from the desk 1.''
       [''go to shelf 1'', ''go to drawer 1'', ''go to desk 1'', ''put mug 1 in/on shelf 1'',
        ''put mug 1 in/on drawer 1'']
       False 0"
  "scripted ''go to shelf 1'' =
     step_entry ''You arrive at shelf 1. On the shelf 1, you see nothing.''
       [''put mug 1 in/on shelf 1'', ''go to desk 1'', ''go to drawer 1'']
       False 0"
  "scripted ''put mug 1 in/on shelf 1'' = step_entry ''You put the mug 1 in/on the shelf 1.'' [] True 1"
  by (simp_all add: scripted_def STEP_RESPONSES_def)

lemma demo_plain:
  "plain_cmd demo_rt init_line ''init''" "plain_cmd demo_rt reset_line ''reset''"
  "plain_cmd demo_rt shutdown_line ''shutdown''"
  unfolding plain_cmd_def
  using decodes_init decodes_reset_demo decodes_shutdown
  by (force simp: cmd_kind_def dict_get_def)+

lemma demo_step_cmd_gen:
  assumes \<open>map_of demo_table (''{"cmd": "step", "action": "'' @ a @ ''"}'') =
             Some (PDict [(PStr ''cmd'', PStr ''step''), (PStr ''action'', PStr a)])\<close>
  shows "step_cmd demo_rt (step_action_line a) a"
proof -
  have "decodes demo_rt (step_action_line a) [(PStr ''cmd'', PStr ''step''), (PStr ''action'', PStr a)]"
    unfolding step_action_line_def
    by (rule demo_decodes (1) [OF assms]) (simp_all add: py_isspace_def whitespace_def)
  moreover have "cmd_kind [(PStr ''cmd'', PStr ''step''), (PStr ''action'', PStr a)] = PStr ''step''"
    by (simp add: cmd_kind_def dict_get_def)
  moreover have "map_of [(PStr ''cmd'', PStr ''step''), (PStr ''action'', PStr a)] (PStr ''action'') =
      Some (PStr a)"
    by simp
  ultimately show ?thesis unfolding step_cmd_def by blast
qed

lemma demo_step_cmd:
  "step_cmd demo_rt (step_action_line ''go to desk 1'') ''go to desk 1''"
  "step_cmd demo_rt (step_action_line ''take mug 1 from desk 1'') ''take mug 1 from desk 1''"
  "step_cmd demo_rt (step_action_line ''go to shelf 1'') ''go to shelf 1''"
  "step_cmd demo_rt (step_action_line ''put mug 1 in/on shelf 1'') ''put mug 1 in/on shelf 1''"
  by (rule demo_step_cmd_gen, simp add: demo_table_def)+



lemma reset_body_calls:
  assumes "reset_body rt cmd st = Some (r, st')"
  shows "(InitEnv, True) \<in> set (calls st') \<longrightarrow> (InitEnv, True) \<in> set (calls st)"
proof (cases "narrow_tasks cmd st")
  case None
  with assms show ?thesis by (simp add: reset_body_def)
next
  case (Some a)
  obtain r1 st1 where a: "a = (r1, st1)" by (cases a)
  note n = Some [unfolded a]
  from narrow_tasks_frame [OF n] have c1: "calls st1 = calls st" by simp
  show ?thesis
  proof (cases r1)
    case (Some e)
    with assms n c1 show ?thesis by (auto simp: reset_body_def)
  next
    case None
    with assms n c1 show ?thesis
      by (auto simp: reset_body_def engine_call_eq split: sum.splits dest!: send_fields)
  qed
qed

lemma dispatch_no_init_env:
  assumes "dispatch rt cmd st = Some (st', c)" and "cmd_kind cmd \<noteq> PStr ''init''"
    and "(InitEnv, True) \<in> set (calls st')"
  shows "(InitEnv, True) \<in> set (calls st)"
proof -
  have r: "\<And>s. do_reset rt cmd st = Some s \<Longrightarrow> (InitEnv, True) \<in> set (calls s) \<Longrightarrow>
             (InitEnv, True) \<in> set (calls st)"
    by (auto simp: do_reset_def split: if_splits option.splits dest!: reset_body_calls)
  have s: "(InitEnv, True) \<in> set (calls (do_step rt cmd st)) \<Longrightarrow> (InitEnv, True) \<in> set (calls st)"
    by (cases "step_body rt cmd st")
       (auto simp: do_step_def split: if_splits option.splits dest!: step_body_result)
  have c: "(InitEnv, True) \<in> set (calls (close_engine rt st)) \<Longrightarrow> (InitEnv, True) \<in> set (calls st)"
    by (auto simp: close_engine_def engine_call_eq split: if_splits)
  have sd: "\<And>d s s'. send d s = Inr s' \<Longrightarrow> calls s' = calls s"
    by (auto dest!: send_fields)
  from assms show ?thesis
    unfolding dispatch_def cmd_kind_def Let_def
    by (auto split: if_splits sum.splits dest: r s c dest!: sd)
qed

lemma handle_line_no_init_env:
  assumes "handle_line rt raw st = Some (st', c)" and "\<not> plain_cmd rt raw ''init''"
    and "(InitEnv, True) \<in> set (calls st')"
  shows "(InitEnv, True) \<in> set (calls st)"
proof (cases "\<exists>cmd. decodes rt raw cmd")
  case True
  then obtain cmd where d: "decodes rt raw cmd" by blast
  with assms(2) have k: "cmd_kind cmd \<noteq> PStr ''init''" by (auto simp: plain_cmd_def)
  from assms(1) d handle_line_decodes [of rt raw cmd st]
  have "dispatch rt cmd st = Some (st', c)" by simp
  from dispatch_no_init_env [OF this k assms(3)] show ?thesis .
next
  case False
  with assms(1,3) show ?thesis
    by (auto simp: handle_line_def decodes_def Let_def split: if_splits loaded.splits pyval.splits)
qed

lemma main_loop_no_init_env:
  "main_loop rt pre st0 = Some (st, c) \<Longrightarrow> \<forall>l \<in> set pre. \<not> plain_cmd rt l ''init'' \<Longrightarrow>
     (InitEnv, True) \<in> set (calls st) \<Longrightarrow> (InitEnv, True) \<in> set (calls st0)"
proof (induction pre arbitrary: st0)
  case Nil
  then show ?case by simp
next
  case (Cons l ls)
  from Cons.prems(1) obtain s1 c1 where h: "handle_line rt l st0 = Some (s1, c1)"
    by (auto split: option.splits)
  show ?case
  proof (cases c1)
    case Continue
    with Cons.prems(1) h have "main_loop rt ls s1 = Some (st, c)" by simp
    from Cons.IH [OF this] Cons.prems(2,3) have "(InitEnv, True) \<in> set (calls s1)" by simp
    with h Cons.prems(2) show ?thesis by (auto dest: handle_line_no_init_env)
  next
    case Break
    with Cons.prems h show ?thesis by (auto dest: handle_line_no_init_env)
  next
    case (Crash e)
    with Cons.prems h show ?thesis by (auto dest: handle_line_no_init_env)
  qed
qed

section \<open>Termination of the traversal\<close>

text \<open>
  C10.  \<^verbatim>\<open>set_game_files\<close> returns exactly on the delegate chains that reach
  \<^verbatim>\<open>None\<close> after finitely many steps (the \<^verbatim>\<open>env\<close> attribute, else
  \<^verbatim>\<open>_wrapped_env\<close>, else \<^verbatim>\<open>None\<close>): on every such chain it terminates, and on any
  other it never does, so finiteness is a genuine precondition.
\<close>

theorem set_game_files_terminates_iff_finite:
  "(\<exists>h'. set_game_files h e files = Some h') \<longleftrightarrow> finite_chain h e"
proof
  assume "\<exists>h'. set_game_files h e files = Some h'"
  then show "finite_chain h e" by (auto dest: set_game_files_finite)
next
  assume "finite_chain h e"
  then obtain n ls where "layers n h e = Some ls" unfolding finite_chain_def by auto
  from set_game_files_layers [OF this] show "\<exists>h'. set_game_files h e files = Some h'" by blast
qed

text \<open>
  The three-layer chain of the example engine is finite and the traversal returns on it;
  the object that is its own delegate has no finite chain and the traversal never returns.
\<close>

theorem set_game_files_terminates_iff_finite_witness:
  "finite_chain demo_wrapped (PRef 2) \<and>
   set_game_files demo_wrapped (PRef 2) (PList [PStr ''b.tw-pddl'']) \<noteq> None \<and>
   \<not> finite_chain cyclic_heap (PRef 0) \<and>
   set_game_files cyclic_heap (PRef 0) (PList [PStr ''b.tw-pddl'']) = None"
proof -
  have fin: "finite_chain demo_wrapped (PRef 2)"
    unfolding finite_chain_def using demo_wrapped_layers by (intro exI [of _ "Suc (Suc (Suc 0))"]) simp
  have inf: "\<not> finite_chain cyclic_heap (PRef 0)"
    by (simp add: finite_chain_def cyclic_layers)
  from fin set_game_files_terminates_iff_finite [of demo_wrapped "PRef 2" "PList [PStr ''b.tw-pddl'']"]
  have a: "set_game_files demo_wrapped (PRef 2) (PList [PStr ''b.tw-pddl'']) \<noteq> None" by auto
  from inf set_game_files_terminates_iff_finite [of cyclic_heap "PRef 0" "PList [PStr ''b.tw-pddl'']"]
  have b: "set_game_files cyclic_heap (PRef 0) (PList [PStr ''b.tw-pddl'']) = None" by auto
  from fin a inf b show ?thesis by blast
qed

section \<open>Commands that need the engine\<close>

text \<open>
  C1, as stated, fails on the mock: it has no session, and answers \<^verbatim>\<open>reset\<close> as the
  first command with the canned observation, which has no \<^verbatim>\<open>status\<close> field.
\<close>

theorem mock_reset_needs_no_init:
  "mock_main demo_rt [reset_line] = ([mock_reset_response], Continue) \<and>
   py_get mock_reset_response ''status'' PNone = Inr PNone"
  by (simp add: mock_main_def mock_handle_line_decodes [OF decodes_reset_demo] mock_dispatch_def
      dict_get_def py_get_def mock_reset_response_def)

text \<open>
  C1, amended.  In the real bridge, as long as no call of \<^verbatim>\<open>init_env\<close> has returned
  (so before any \<^verbatim>\<open>init\<close> command, and after every \<^verbatim>\<open>init\<close> that failed earlier),
  a \<^verbatim>\<open>reset\<close> or \<^verbatim>\<open>step\<close> command is answered by the state error
  \<^verbatim>\<open>{"status": "error", "error": "Environment not initialized. Call init first."}\<close>;
  nothing else of the state changes, in particular no operation of the engine is called,
  and the loop goes on with the next line.
\<close>

theorem state_error_without_engine_handle:
  assumes "main rt h0 pre = Some (st, Continue)"
    and "(\<forall>l \<in> set pre. \<not> plain_cmd rt l ''init'') \<or> (InitEnv, True) \<notin> set (calls st)"
    and "decodes rt raw cmd"
    and "cmd_kind cmd = PStr ''reset'' \<or> cmd_kind cmd = PStr ''step''"
  shows "handle_line rt raw st =
           Some (st\<lparr>out := out st @
                   [PDict [(PStr ''status'', PStr ''error''),
                           (PStr ''error'', PStr ''Environment not initialized. Call init first.'')]]\<rparr>,
                 Continue) \<and>
         main rt h0 (pre @ raw # rest) =
           main_loop rt rest
             (st\<lparr>out := out st @
                [PDict [(PStr ''status'', PStr ''error''),
                        (PStr ''error'', PStr ''Environment not initialized. Call init first.'')]]\<rparr>)"
proof -
  have "handle_line rt raw st =
             Some (st\<lparr>out := out st @ [error_response not_initialized]\<rparr>, Continue) \<and>
           main rt h0 (pre @ raw # rest) =
             main_loop rt rest (st\<lparr>out := out st @ [error_response not_initialized]\<rparr>)"
  proof -
    from assms(1) have "session_inv st"
      unfolding main_def by (rule main_loop_inv) (rule init_state_inv)
    moreover have "(InitEnv, True) \<notin> set (calls st)"
    proof
      assume "(InitEnv, True) \<in> set (calls st)"
      with assms(2) have np: "\<forall>l \<in> set pre. \<not> plain_cmd rt l ''init''" by blast
      from main_loop_no_init_env [OF assms(1) [unfolded main_def] np \<open>(InitEnv, True) \<in> set (calls st)\<close>]
      show False by (simp add: init_state_def)
    qed
    ultimately have none: "env st = PNone" by (auto simp: session_inv_def)
    from assms(4) none
    have "dispatch rt cmd st = Some (st\<lparr>out := out st @ [error_response not_initialized]\<rparr>, Continue)"
      by (auto simp: dispatch_def cmd_kind_def Let_def do_reset_def do_step_def send_error_def)
    with assms(3) handle_line_decodes [of rt raw cmd st] have 1: "handle_line rt raw st =
        Some (st\<lparr>out := out st @ [error_response not_initialized]\<rparr>, Continue)"
      by simp
    from assms(1) have "main rt h0 (pre @ raw # rest) = main_loop rt (raw # rest) st"
      unfolding main_def by (rule main_loop_append)
    with 1 show ?thesis by simp
  qed
  then show ?thesis
    unfolding error_response_def not_initialized_def .
qed

text \<open>
  On the engine whose \<^verbatim>\<open>init_env\<close> raises, \<^verbatim>\<open>init\<close> fails and the \<^verbatim>\<open>reset\<close> that
  follows is answered by the state error, with the log of calls unchanged; so is a
  \<^verbatim>\<open>reset\<close> as the first line.
\<close>

theorem state_error_without_engine_handle_witness:
  "main broken_rt demo_heap [init_line] = Some (demo_half, Continue) \<and>
   (InitEnv, True) \<notin> set (calls demo_half) \<and>
   decodes broken_rt reset_line [(PStr ''cmd'', PStr ''reset'')] \<and>
   handle_line broken_rt reset_line demo_half =
     Some (demo_half\<lparr>out := out demo_half @ [PDict [(PStr ''status'', PStr ''error''),
                    (PStr ''error'', PStr ''Environment not initialized. Call init first.'')]]\<rparr>, Continue) \<and>
   calls (demo_half\<lparr>out := out demo_half @ [PDict [(PStr ''status'', PStr ''error''),
                    (PStr ''error'', PStr ''Environment not initialized. Call init first.'')]]\<rparr>) = calls demo_half \<and>
   main demo_rt demo_heap [] = Some (init_state demo_heap, Continue) \<and>
   handle_line demo_rt reset_line (init_state demo_heap) =
     Some ((init_state demo_heap)\<lparr>out := [PDict [(PStr ''status'', PStr ''error''),
                    (PStr ''error'', PStr ''Environment not initialized. Call init first.'')]]\<rparr>, Continue)"
proof -
  have "main broken_rt demo_heap [init_line] = Some (demo_half, Continue) \<and>
     (InitEnv, True) \<notin> set (calls demo_half) \<and>
     decodes broken_rt reset_line [(PStr ''cmd'', PStr ''reset'')] \<and>
     handle_line broken_rt reset_line demo_half =
       Some (demo_half\<lparr>out := out demo_half @ [error_response not_initialized]\<rparr>, Continue) \<and>
     calls (demo_half\<lparr>out := out demo_half @ [error_response not_initialized]\<rparr>) = calls demo_half \<and>
     main demo_rt demo_heap [] = Some (init_state demo_heap, Continue) \<and>
     handle_line demo_rt reset_line (init_state demo_heap) =
       Some ((init_state demo_heap)\<lparr>out := [error_response not_initialized]\<rparr>, Continue)"
  proof -
    have run: "main broken_rt demo_heap [init_line] = Some (demo_half, Continue)"
      by (simp add: main_def broken_init_line)
    have log: "(InitEnv, True) \<notin> set (calls demo_half)" by (simp add: demo_half_def)
    have kind: "cmd_kind [(PStr ''cmd'', PStr ''reset'')] = PStr ''reset'' \<or>
                cmd_kind [(PStr ''cmd'', PStr ''reset'')] = PStr ''step''"
      by (simp add: cmd_kind_def dict_get_def)
    have run0: "main demo_rt demo_heap [] = Some (init_state demo_heap, Continue)"
      by (simp add: main_def)
    have none: "(\<forall>l \<in> set ([] :: string list). \<not> plain_cmd demo_rt l ''init'') \<or>
        (InitEnv, True) \<notin> set (calls (init_state demo_heap))" by simp
    from state_error_without_engine_handle [OF run disjI2 [OF log] decodes_reset kind, of "[]", folded not_initialized_def error_response_def]
    have a: "handle_line broken_rt reset_line demo_half =
       Some (demo_half\<lparr>out := out demo_half @ [error_response not_initialized]\<rparr>, Continue)"
      by blast
    from state_error_without_engine_handle [OF run0 none decodes_reset_demo kind, of "[]", folded not_initialized_def error_response_def]
    have b: "handle_line demo_rt reset_line (init_state demo_heap) =
       Some ((init_state demo_heap)\<lparr>out := out (init_state demo_heap) @ [error_response not_initialized]\<rparr>,
             Continue)"
      by blast
    from run log decodes_reset a b run0 show ?thesis by (simp add: init_state_def)
  qed
  then show ?thesis
    unfolding error_response_def not_initialized_def .
qed

section \<open>Shutdown\<close>

text \<open>
  C6.  Once the loop reaches a \<^verbatim>\<open>shutdown\<close> command, in whatever session \<open>st\<close> (engine
  present or not) and whatever \<^verbatim>\<open>close\<close> does (\<open>rt\<close> is arbitrary, and
  \<open>close_engine\<close> leaves the output alone), the response is \<^verbatim>\<open>{"status": "ok"}\<close> and
  the loop ends with \<^verbatim>\<open>break\<close>: whatever lines \<open>rest\<close> follow, the output is the output so
  far and that one response.  The same holds of the mock.
\<close>

theorem shutdown_is_last:
  assumes "decodes rt raw cmd" and "cmd_kind cmd = PStr ''shutdown''"
  shows "(main_loop rt pre st0 = Some (st, Continue) \<longrightarrow>
            main_loop rt (pre @ raw # rest) st0 =
              Some ((close_engine rt st)\<lparr>out := out st @ [PDict [(PStr ''status'', PStr ''ok'')]]\<rparr>, Break)) \<and>
         (mock_loop rt pre sent0 = (sent, Continue) \<longrightarrow>
            mock_loop rt (pre @ raw # rest) sent0 = (sent @ [PDict [(PStr ''status'', PStr ''ok'')]], Break))"
proof -
  have "(main_loop rt pre st0 = Some (st, Continue) \<longrightarrow>
              main_loop rt (pre @ raw # rest) st0 =
                Some ((close_engine rt st)\<lparr>out := out st @ [ok_response]\<rparr>, Break)) \<and>
           (mock_loop rt pre sent0 = (sent, Continue) \<longrightarrow>
              mock_loop rt (pre @ raw # rest) sent0 = (sent @ [ok_response], Break))"
  proof -
    have 1: "handle_line rt raw st = Some ((close_engine rt st)\<lparr>out := out st @ [ok_response]\<rparr>, Break)"
      using assms handle_line_decodes [of rt raw cmd st] by (simp add: dispatch_shutdown)
    have 2: "mock_handle_line rt raw sent = (sent @ [ok_response], Break)"
      using assms mock_handle_line_decodes [of rt raw cmd sent] by (simp add: mock_dispatch_shutdown)
    show ?thesis
      using 1 2 by (auto simp: main_loop_append mock_loop_append)
  qed
  then show ?thesis
    unfolding ok_response_def .
qed

text \<open>
  On the example engine, whose \<^verbatim>\<open>close\<close> raises: \<^verbatim>\<open>init\<close>, \<^verbatim>\<open>shutdown\<close>, and two
  lines that are never read.
\<close>

theorem shutdown_is_last_witness:
  "main_loop demo_rt [init_line] (init_state demo_heap) = Some (demo_ready, Continue) \<and>
   main_loop demo_rt ([init_line] @ shutdown_line # [list_line, reset_line]) (init_state demo_heap) =
     Some (demo_ready\<lparr>calls := calls demo_ready @ [(Close, False)],
                       out := out demo_ready @ [PDict [(PStr ''status'', PStr ''ok'')]]\<rparr>, Break) \<and>
   mock_loop demo_rt [init_line] [] = ([PDict [(PStr ''status'', PStr ''ok''), (PStr ''task_count'', PInt 3)]], Continue) \<and>
   mock_loop demo_rt ([init_line] @ shutdown_line # [list_line, reset_line]) [] =
     ([PDict [(PStr ''status'', PStr ''ok''), (PStr ''task_count'', PInt 3)], PDict [(PStr ''status'', PStr ''ok'')]], Break)"
proof -
  have "main_loop demo_rt [init_line] (init_state demo_heap) = Some (demo_ready, Continue) \<and>
     main_loop demo_rt ([init_line] @ shutdown_line # [list_line, reset_line]) (init_state demo_heap) =
       Some (demo_ready\<lparr>calls := calls demo_ready @ [(Close, False)],
                         out := out demo_ready @ [ok_response]\<rparr>, Break) \<and>
     mock_loop demo_rt [init_line] [] = ([init_response 3], Continue) \<and>
     mock_loop demo_rt ([init_line] @ shutdown_line # [list_line, reset_line]) [] =
       ([init_response 3, ok_response], Break)"
  proof -
    have kind: "cmd_kind [(PStr ''cmd'', PStr ''shutdown'')] = PStr ''shutdown''"
      by (simp add: cmd_kind_def dict_get_def)
    have run: "main_loop demo_rt [init_line] (init_state demo_heap) = Some (demo_ready, Continue)"
      by (simp add: demo_init_line)
    note last = shutdown_is_last [OF decodes_shutdown kind, where pre = "[init_line]"
        and rest = "[list_line, reset_line]", folded ok_response_def]
    from last [where ?st0.0 = "init_state demo_heap" and st = demo_ready] run
    have a: "main_loop demo_rt ([init_line] @ shutdown_line # [list_line, reset_line])
               (init_state demo_heap) =
             Some ((close_engine demo_rt demo_ready)\<lparr>out := out demo_ready @ [ok_response]\<rparr>, Break)"
      by blast
    from last [where ?sent0.0 = "[]" and sent = "[init_response 3]"] mock_init_line
    have b: "mock_loop demo_rt ([init_line] @ shutdown_line # [list_line, reset_line]) [] =
             ([init_response 3] @ [ok_response], Break)"
      by blast
    from run a b mock_init_line show ?thesis by (simp add: demo_close)
  qed
  then show ?thesis
    by (simp add: ok_response_def init_response_def)
qed

section \<open>Protocol errors\<close>

text \<open>
  C7.  The claim asks that every line that is not valid JSON be answered by one error
  response and the loop go on.  The code falls short of it: the \<^verbatim>\<open>except\<close> clause
  around \<^verbatim>\<open>json.loads\<close> catches \<^verbatim>\<open>json.JSONDecodeError\<close> only, while the
  \<^verbatim>\<open>try\<close> blocks of \<^verbatim>\<open>init\<close>, \<^verbatim>\<open>reset\<close> and \<^verbatim>\<open>step\<close> catch
  \<^verbatim>\<open>Exception\<close>.  On a line of 2048 opening brackets \<^verbatim>\<open>json.loads\<close> raises
  \<^verbatim>\<open>RecursionError\<close>: nothing is written, the loop is left by the exception, and the
  next line is not read.
\<close>

theorem undecodable_line_ends_the_loop:
  "py_strip deep_line = replicate 2048 (CHR ''['') \<and>
   json_loads demo_rt (py_strip deep_line) = OtherError recursion_error \<and>
   handle_line demo_rt deep_line demo_ready = Some (demo_ready, Crash recursion_error) \<and>
   main_loop demo_rt [deep_line, list_line] demo_ready = Some (demo_ready, Crash recursion_error)"
proof -
  have s: "py_strip deep_line = deep_text"
    unfolding deep_line_def
    by (rule py_strip_line_of) (simp_all add: deep_text_hd py_isspace_def whitespace_def)
  have "map_of demo_table deep_text = None"
    by (simp add: demo_table_def)
  then have l: "json_loads demo_rt deep_text = OtherError recursion_error"
    by (simp add: demo_rt_def demo_loads_def)
  have h: "handle_line demo_rt deep_line demo_ready = Some (demo_ready, Crash recursion_error)"
    by (simp add: handle_line_def s l deep_text_hd)
  from s l h show ?thesis by (simp add: deep_text_def [symmetric])
qed

text \<open>
  What the loop does recover from.  A line that is blank after trimming produces no
  response; a line that is not blank and that \<^verbatim>\<open>json.loads\<close> rejects with a
  \<^verbatim>\<open>JSONDecodeError\<close> produces the one response
  \<^verbatim>\<open>{"status": "error", "error": "Invalid JSON: ..."}\<close>; a decoded object whose
  \<^verbatim>\<open>cmd\<close> is none of the five commands produces the one response
  \<^verbatim>\<open>{"status": "error", "error": "Unknown command: <value>"}\<close>, where the value is
  \<^verbatim>\<open>None\<close> for an absent field and the text itself for a string; and in each of these
  cases the loop goes on with the next line.  Any other exception of \<^verbatim>\<open>json.loads\<close>
  ends the loop with nothing written.
\<close>

theorem protocol_errors_are_recovered:
  "(py_strip raw = [] \<longrightarrow> handle_line rt raw st = Some (st, Continue)) \<and>
   (py_strip raw \<noteq> [] \<and> json_loads rt (py_strip raw) = DecodeError msg \<longrightarrow>
      handle_line rt raw st =
        Some (st\<lparr>out := out st @
                 [PDict [(PStr ''status'', PStr ''error''),
                         (PStr ''error'', PStr (''Invalid JSON: '' @ msg))]]\<rparr>, Continue)) \<and>
   (decodes rt raw cmd \<and> cmd_kind cmd \<notin> set known_kinds \<longrightarrow>
      handle_line rt raw st =
        Some (st\<lparr>out := out st @
                 [PDict [(PStr ''status'', PStr ''error''),
                         (PStr ''error'', PStr (''Unknown command: '' @ py_str rt (cmd_kind cmd)))]]\<rparr>,
              Continue)) \<and>
   (map_of cmd (PStr ''cmd'') = None \<longrightarrow>
      cmd_kind cmd \<notin> set known_kinds \<and> py_str rt (cmd_kind cmd) = ''None'') \<and>
   (cmd_kind cmd = PStr k \<longrightarrow> py_str rt (cmd_kind cmd) = k) \<and>
   (handle_line rt raw st = Some (st', Continue) \<longrightarrow>
      main_loop rt (raw # rest) st = main_loop rt rest st') \<and>
   (py_strip raw \<noteq> [] \<and> json_loads rt (py_strip raw) = OtherError e \<longrightarrow>
      handle_line rt raw st = Some (st, Crash e) \<and>
      main_loop rt (raw # rest) st = Some (st, Crash e))"
proof (intro conjI impI)
  assume "py_strip raw = []"
  then show "handle_line rt raw st = Some (st, Continue)" by (simp add: handle_line_def)
next
  assume "py_strip raw \<noteq> [] \<and> json_loads rt (py_strip raw) = DecodeError msg"
  then show "handle_line rt raw st =
      Some (st\<lparr>out := out st @
                 [PDict [(PStr ''status'', PStr ''error''),
                         (PStr ''error'', PStr (''Invalid JSON: '' @ msg))]]\<rparr>, Continue)"
    by (simp add: handle_line_def send_error_def error_response_def)
next
  assume a: "decodes rt raw cmd \<and> cmd_kind cmd \<notin> set known_kinds"
  then have "dispatch rt cmd st =
      Some (st\<lparr>out := out st @
                 [PDict [(PStr ''status'', PStr ''error''),
                         (PStr ''error'', PStr (''Unknown command: '' @ py_str rt (cmd_kind cmd)))]]\<rparr>,
            Continue)"
    by (simp add: dispatch_def cmd_kind_def known_kinds_def send_error_def error_response_def Let_def)
  with a handle_line_decodes [of rt raw cmd st] show "handle_line rt raw st =
      Some (st\<lparr>out := out st @
                 [PDict [(PStr ''status'', PStr ''error''),
                         (PStr ''error'', PStr (''Unknown command: '' @ py_str rt (cmd_kind cmd)))]]\<rparr>,
            Continue)"
    by simp
next
  assume "map_of cmd (PStr ''cmd'') = None"
  then show "cmd_kind cmd \<notin> set known_kinds" "py_str rt (cmd_kind cmd) = ''None''"
    by (simp_all add: cmd_kind_def dict_get_def known_kinds_def py_str_def)
next
  assume "cmd_kind cmd = PStr k"
  then show "py_str rt (cmd_kind cmd) = k" by (simp add: py_str_def)
next
  assume "handle_line rt raw st = Some (st', Continue)"
  then show "main_loop rt (raw # rest) st = main_loop rt rest st'" by simp
next
  assume "py_strip raw \<noteq> [] \<and> json_loads rt (py_strip raw) = OtherError e"
  then show h: "handle_line rt raw st = Some (st, Crash e)" by (simp add: handle_line_def)
  then show "main_loop rt (raw # rest) st = Some (st, Crash e)" by simp
qed

text \<open>A blank line, a garbled line, an unknown command and an object without \<^verbatim>\<open>cmd\<close>.\<close>

theorem protocol_errors_are_recovered_witness:
  "py_strip blank_line = [] \<and>
   handle_line demo_rt blank_line demo_ready = Some (demo_ready, Continue) \<and>
   handle_line demo_rt garbled_line demo_ready =
     Some (demo_ready\<lparr>out := out demo_ready @
        [PDict [(PStr ''status'', PStr ''error''),
                (PStr ''error'', PStr ''Invalid JSON: Expecting value: line 1 column 1 (char 0)'')]]\<rparr>,
       Continue) \<and>
   handle_line demo_rt fly_line demo_ready =
     Some (demo_ready\<lparr>out := out demo_ready @
        [PDict [(PStr ''status'', PStr ''error''), (PStr ''error'', PStr ''Unknown command: fly'')]]\<rparr>,
       Continue) \<and>
   handle_line demo_rt empty_object_line demo_ready =
     Some (demo_ready\<lparr>out := out demo_ready @
        [PDict [(PStr ''status'', PStr ''error''), (PStr ''error'', PStr ''Unknown command: None'')]]\<rparr>,
       Continue) \<and>
   main_loop demo_rt (blank_line # [fly_line]) demo_ready = main_loop demo_rt [fly_line] demo_ready"
proof -
  have blank: "py_strip blank_line = []"
    by (simp add: py_strip_def blank_line_def py_isspace_def whitespace_def)
  have fly: "cmd_kind [(PStr ''cmd'', PStr ''fly'')] = PStr ''fly''"
    "cmd_kind [(PStr ''cmd'', PStr ''fly'')] \<notin> set known_kinds"
    by (simp_all add: cmd_kind_def dict_get_def known_kinds_def)
  have absent: "map_of ([] :: (pyval \<times> pyval) list) (PStr ''cmd'') = None" by simp
  note p1 = protocol_errors_are_recovered [where rt = demo_rt and st = demo_ready]
  from p1 [where raw = blank_line and st' = demo_ready and rest = "[fly_line]"] blank
  have a: "handle_line demo_rt blank_line demo_ready = Some (demo_ready, Continue)"
    and f: "main_loop demo_rt (blank_line # [fly_line]) demo_ready =
            main_loop demo_rt [fly_line] demo_ready"
    by blast+
  from p1 [where raw = garbled_line] garbled_strip
  have b: "handle_line demo_rt garbled_line demo_ready =
     Some (demo_ready\<lparr>out := out demo_ready @
        [PDict [(PStr ''status'', PStr ''error''),
                (PStr ''error'',
                 PStr (''Invalid JSON: '' @ ''Expecting value: line 1 column 1 (char 0)''))]]\<rparr>,
       Continue)"
    by blast
  from p1 [where raw = fly_line and cmd = "[(PStr ''cmd'', PStr ''fly'')]" and k = "''fly''"]
    decodes_fly fly
  have c: "handle_line demo_rt fly_line demo_ready =
     Some (demo_ready\<lparr>out := out demo_ready @
        [PDict [(PStr ''status'', PStr ''error''),
                (PStr ''error'', PStr (''Unknown command: '' @ ''fly''))]]\<rparr>, Continue)"
    by simp
  from p1 [where raw = empty_object_line and cmd = "[]"] decodes_empty_object absent
  have d: "handle_line demo_rt empty_object_line demo_ready =
     Some (demo_ready\<lparr>out := out demo_ready @
        [PDict [(PStr ''status'', PStr ''error''),
                (PStr ''error'', PStr (''Unknown command: '' @ ''None''))]]\<rparr>, Continue)"
    by simp
  from blank a b c d f show ?thesis by simp
qed

section \<open>A failing \<^verbatim>\<open>init\<close>\<close>

text \<open>
  C2, as stated, fails: \<^verbatim>\<open>tw_env\<close> is assigned as soon as the constructor returns.  On
  the engine whose \<^verbatim>\<open>init_env\<close> raises, the first \<^verbatim>\<open>init\<close> is answered by an error
  and leaves the newly built object in \<^verbatim>\<open>tw_env\<close>, which was \<^verbatim>\<open>None\<close> before.
\<close>

theorem failed_init_keeps_new_object:
  "handle_line broken_rt init_line (init_state demo_heap) = Some (demo_half, Continue) \<and>
   out demo_half =
     [PDict [(PStr ''status'', PStr ''error''),
             (PStr ''error'', PStr ''Failed to initialize ALFWorld: init_env failed'')]] \<and>
   tw_env (init_state demo_heap) = PNone \<and> tw_env demo_half = PRef 1"
  by (simp add: broken_init_line) (simp add: demo_half_def init_state_def error_response_def)

text \<open>
  C2, amended.  When the \<^verbatim>\<open>try\<close> block of \<^verbatim>\<open>init\<close> ends with an exception \<open>e\<close>, the
  bridge answers with the response
  \<^verbatim>\<open>{"status": "error", "error": "Failed to initialize ALFWorld: <e>"}\<close> and goes on, and
  the stored catalog is as before.  The engine handle \<^verbatim>\<open>env\<close> is as before unless
  \<^verbatim>\<open>init_env\<close> had returned, and then it is the value \<^verbatim>\<open>init_env\<close> returned: the new
  handle is kept.  \<^verbatim>\<open>tw_env\<close> is as before unless the constructor had returned, and then it
  is the object the constructor returned: the new object is kept, also beside an old
  handle.  The last conjunct reads the same along the block: \<open>config\<close>, \<open>split\<close> and
  \<open>st2\<close> are what lines 106 to 122 produce, \<open>t\<close> is the object of the constructor, and
  \<open>init_env\<close> either raises the exception that ends the block or returns the handle.
\<close>

theorem failed_init_effects:
  assumes "decodes rt raw cmd" and "cmd_kind cmd = PStr ''init''"
    and "init_body rt cmd st = (Some e, st1)"
  shows "handle_line rt raw st =
           Some (st1\<lparr>out := out st @
                    [PDict [(PStr ''status'', PStr ''error''),
                            (PStr ''error'',
                             PStr (''Failed to initialize ALFWorld: '' @ exc_text rt e))]]\<rparr>,
                 Continue) \<and>
         game_files st1 = game_files st \<and>
         ((InitEnv, True) \<notin> set (new_calls st st1) \<longrightarrow> env st1 = env st) \<and>
         ((Construct, True) \<notin> set (new_calls st st1) \<longrightarrow>
            tw_env st1 = tw_env st \<and> env st1 = env st) \<and>
         ((Construct, True) \<in> set (new_calls st st1) \<longrightarrow>
            (\<exists>config split st2 t h3.
               init_config rt cmd st = (Inr (config, split), st2) \<and>
               alfred_tw_env rt config split (heap st2) = (Inr t, h3) \<and> tw_env st1 = PRef t)) \<and>
         ((InitEnv, True) \<in> set (new_calls st st1) \<longrightarrow>
            (\<exists>config split st2 t h3 v h4.
               init_config rt cmd st = (Inr (config, split), st2) \<and>
               alfred_tw_env rt config split (heap st2) = (Inr t, h3) \<and>
               init_env rt (PRef t) h3 = (Inr v, h4) \<and> tw_env st1 = PRef t \<and> env st1 = v)) \<and>
         (init_config rt cmd st = (Inr (config, split), st2) \<and>
          alfred_tw_env rt config split (heap st2) = (Inr t, h3) \<longrightarrow>
            tw_env st1 = PRef t \<and> (Construct, True) \<in> set (new_calls st st1) \<and>
            (init_env rt (PRef t) h3 = (Inl x, h4) \<longrightarrow>
               x = e \<and> env st1 = env st \<and> heap st1 = h4 \<and>
               (InitEnv, True) \<notin> set (new_calls st st1)) \<and>
            (init_env rt (PRef t) h3 = (Inr v, h4) \<longrightarrow>
               env st1 = v \<and> heap st1 = h4 \<and> (InitEnv, True) \<in> set (new_calls st st1)))"
proof -
  from init_body_cases [OF assms(3)] obtain cs where cs: "calls st1 = calls st @ cs"
    and f: "game_files st1 = game_files st" "out st1 = out st"
      "if (Construct, True) \<in> set cs then (\<exists>t. tw_env st1 = PRef t)
       else tw_env st1 = tw_env st \<and> env st1 = env st"
      "env st1 = env st \<or> (InitEnv, True) \<in> set cs"
    by auto
  have n: "new_calls st st1 = cs" using cs by (rule new_calls_append)
  have "handle_line rt raw st = Some (do_init rt cmd st, Continue)"
    using assms(1,2) handle_line_decodes [of rt raw cmd st] by (simp add: dispatch_init)
  moreover have "do_init rt cmd st =
      st1\<lparr>out := out st @
             [PDict [(PStr ''status'', PStr ''error''),
                     (PStr ''error'', PStr (''Failed to initialize ALFWorld: '' @ exc_text rt e))]]\<rparr>"
    using assms(3) f(2) by (simp add: do_init_def send_error_def error_response_def)
  ultimately have 1: "handle_line rt raw st =
      Some (st1\<lparr>out := out st @
             [PDict [(PStr ''status'', PStr ''error''),
                     (PStr ''error'', PStr (''Failed to initialize ALFWorld: '' @ exc_text rt e))]]\<rparr>,
            Continue)"
    by simp
  have 2: "(InitEnv, True) \<notin> set (new_calls st st1) \<longrightarrow> env st1 = env st"
    using f(4) n by auto
  have 3: "(Construct, True) \<notin> set (new_calls st st1) \<longrightarrow>
      tw_env st1 = tw_env st \<and> env st1 = env st"
    using f(3) n by (auto split: if_splits)
  note o = init_body_origin [OF assms(3)]
  have 4: "init_config rt cmd st = (Inr (config, split), st2) \<and>
      alfred_tw_env rt config split (heap st2) = (Inr t, h3) \<longrightarrow>
        tw_env st1 = PRef t \<and> (Construct, True) \<in> set (new_calls st st1) \<and>
        (init_env rt (PRef t) h3 = (Inl x, h4) \<longrightarrow>
           x = e \<and> env st1 = env st \<and> heap st1 = h4 \<and>
           (InitEnv, True) \<notin> set (new_calls st st1)) \<and>
        (init_env rt (PRef t) h3 = (Inr v, h4) \<longrightarrow>
           env st1 = v \<and> heap st1 = h4 \<and> (InitEnv, True) \<in> set (new_calls st st1))"
  proof (intro impI)
    assume a: "init_config rt cmd st = (Inr (config, split), st2) \<and>
      alfred_tw_env rt config split (heap st2) = (Inr t, h3)"
    from init_config_frame [of rt cmd st "Inr (config, split)" st2] a obtain cs2 where
      f2: "calls st2 = calls st @ cs2" "(InitEnv, True) \<notin> set cs2"
      by blast
    obtain r4 h4' where i: "init_env rt (PRef t) h3 = (r4, h4')"
      by (cases "init_env rt (PRef t) h3")
    show "tw_env st1 = PRef t \<and> (Construct, True) \<in> set (new_calls st st1) \<and>
        (init_env rt (PRef t) h3 = (Inl x, h4) \<longrightarrow>
           x = e \<and> env st1 = env st \<and> heap st1 = h4 \<and>
           (InitEnv, True) \<notin> set (new_calls st st1)) \<and>
        (init_env rt (PRef t) h3 = (Inr v, h4) \<longrightarrow>
           env st1 = v \<and> heap st1 = h4 \<and> (InitEnv, True) \<in> set (new_calls st st1))"
    proof (cases r4)
      case (Inl y)
      from init_body_stages [OF assms(3), where config = config and split = split
          and ?st2.0 = st2 and ?h3.0 = h3 and t = t and e = y and ?h4.0 = h4'] a i [unfolded Inl]
      have "tw_env st1 = PRef t" "y = e" "env st1 = env st" "heap st1 = h4'"
        "calls st1 = calls st2 @ [(Construct, True), (InitEnv, False)]"
        by simp_all
      with f2 i Inl show ?thesis by (simp add: new_calls_def)
    next
      case (Inr w)
      from init_body_stages [OF assms(3), where config = config and split = split
          and ?st2.0 = st2 and ?h3.0 = h3 and t = t and v = w and ?h4.0 = h4'] a i [unfolded Inr]
      have "tw_env st1 = PRef t" "env st1 = w" "heap st1 = h4'"
        "calls st1 = calls st2 @ [(Construct, True), (InitEnv, True)]"
        by simp_all
      with f2 i Inr show ?thesis by (simp add: new_calls_def)
    qed
  qed
  from 1 f(1) 2 3 o 4 show ?thesis
    apply (intro conjI)
          apply assumption
         apply assumption
        apply assumption
       apply assumption
      apply blast
     apply blast
    apply assumption
    done
qed

text \<open>
  Three runs.  From the initial session, on the engine whose \<^verbatim>\<open>init_env\<close> raises, the
  catalog and the handle are as before and \<^verbatim>\<open>tw_env\<close> is the object the constructor
  returned.  From the initial session, on the engine whose constructed object has no
  \<^verbatim>\<open>game_files\<close>, the enumeration of the tasks raises after \<^verbatim>\<open>init_env\<close> returned: the
  catalog is as before, \<^verbatim>\<open>tw_env\<close> is the new object and \<^verbatim>\<open>env\<close> is the new handle.
  From the initialized session, a second \<^verbatim>\<open>init\<close> whose configuration file is missing
  fails before the constructor is called: catalog, handle and \<^verbatim>\<open>tw_env\<close> are as before.
\<close>

theorem failed_init_effects_witness:
  "decodes broken_rt init_line [(PStr ''cmd'', PStr ''init'')] \<and>
   init_body broken_rt [(PStr ''cmd'', PStr ''init'')] (init_state demo_heap) =
     (Some (External ''init_env failed''), demo_half\<lparr>out := []\<rparr>) \<and>
   handle_line broken_rt init_line (init_state demo_heap) = Some (demo_half, Continue) \<and>
   out demo_half =
     [PDict [(PStr ''status'', PStr ''error''),
             (PStr ''error'', PStr ''Failed to initialize ALFWorld: init_env failed'')]] \<and>
   game_files demo_half = game_files (init_state demo_heap) \<and>
   (InitEnv, True) \<notin> set (new_calls (init_state demo_heap) (demo_half\<lparr>out := []\<rparr>)) \<and>
   env demo_half = env (init_state demo_heap) \<and>
   (Construct, True) \<in> set (new_calls (init_state demo_heap) (demo_half\<lparr>out := []\<rparr>)) \<and>
   alfred_tw_env broken_rt demo_config demo_split (heap demo_imported) = (Inr 1, demo_built) \<and>
   init_env broken_rt (PRef 1) demo_built = (Inl (External ''init_env failed''), demo_built) \<and>
   tw_env (init_state demo_heap) = PNone \<and> tw_env demo_half = PRef 1 \<and>
   heap demo_half = demo_built \<and>
   decodes bare_rt init_line [(PStr ''cmd'', PStr ''init'')] \<and>
   init_body bare_rt [(PStr ''cmd'', PStr ''init'')] (init_state demo_heap) =
     (Some AttributeError, demo_bare\<lparr>out := []\<rparr>) \<and>
   handle_line bare_rt init_line (init_state demo_heap) = Some (demo_bare, Continue) \<and>
   game_files demo_bare = game_files (init_state demo_heap) \<and>
   alfred_tw_env bare_rt demo_config demo_split (heap demo_imported) = (Inr 1, demo_heap) \<and>
   init_env bare_rt (PRef 1) demo_heap = (Inr (PRef 2), heap demo_bare) \<and>
   (InitEnv, True) \<in> set (new_calls (init_state demo_heap) (demo_bare\<lparr>out := []\<rparr>)) \<and>
   env (init_state demo_heap) = PNone \<and> env demo_bare = PRef 2 \<and> tw_env demo_bare = PRef 1 \<and>
   decodes demo_rt init_missing_line
     [(PStr ''cmd'', PStr ''init''), (PStr ''config_path'', PStr ''missing.yaml'')] \<and>
   init_body demo_rt [(PStr ''cmd'', PStr ''init''), (PStr ''config_path'', PStr ''missing.yaml'')]
     demo_ready = (Some (External ''No such file''), demo_missing\<lparr>out := out demo_ready\<rparr>) \<and>
   handle_line demo_rt init_missing_line demo_ready = Some (demo_missing, Continue) \<and>
   (Construct, True) \<notin> set (new_calls demo_ready (demo_missing\<lparr>out := out demo_ready\<rparr>)) \<and>
   game_files demo_missing = game_files demo_ready \<and> game_files demo_ready = demo_catalog \<and>
   tw_env demo_missing = tw_env demo_ready \<and> tw_env demo_ready = PRef 1 \<and>
   env demo_missing = env demo_ready \<and> env demo_ready = PRef 2"
proof -
  have kind3: "cmd_kind [(PStr ''cmd'', PStr ''init''), (PStr ''config_path'', PStr ''missing.yaml'')] =
      PStr ''init''"
    by (simp add: cmd_kind_def dict_get_def)
  have e3: "exc_text demo_rt (External ''No such file'') = ''No such file''"
    by (simp add: demo_rt_def)
  have s3: "(demo_missing\<lparr>out := out demo_ready\<rparr>)\<lparr>out := out demo_ready @
       [PDict [(PStr ''status'', PStr ''error''),
               (PStr ''error'', PStr (''Failed to initialize ALFWorld: '' @ ''No such file''))]]\<rparr> =
     demo_missing"
    by (simp add: demo_missing_def)
  have n3: "(Construct, True) \<notin> set (new_calls demo_ready (demo_missing\<lparr>out := out demo_ready\<rparr>))"
    by (simp add: new_calls_def demo_missing_def)
  note w3 = failed_init_effects [OF decodes_init_missing kind3 missing_init_body,
      where config = PNone and split = PNone and ?st2.0 = demo_ready and t = 0
        and ?h3.0 = demo_heap and x = AttributeError and ?h4.0 = demo_heap and v = PNone,
      unfolded e3 s3]
  have h3: "handle_line demo_rt init_missing_line demo_ready = Some (demo_missing, Continue)"
    using w3 by blast
  have t3: "game_files (demo_missing\<lparr>out := out demo_ready\<rparr>) = game_files demo_ready"
    "tw_env (demo_missing\<lparr>out := out demo_ready\<rparr>) = tw_env demo_ready"
    "env (demo_missing\<lparr>out := out demo_ready\<rparr>) = env demo_ready"
    using w3 n3 by blast+
  have o3: "game_files demo_ready = demo_catalog" "tw_env demo_ready = PRef 1"
    "env demo_ready = PRef 2"
    by (simp_all add: demo_ready_def)
  have kind: "cmd_kind [(PStr ''cmd'', PStr ''init'')] = PStr ''init''"
    by (simp add: cmd_kind_def dict_get_def)
  have b1: "alfred_tw_env broken_rt demo_config demo_split (heap demo_imported) = (Inr 1, demo_built)"
    by (simp add: broken_rt_def demo_rt_def demo_imported_def init_state_def demo_built_def)
  have b2: "init_env broken_rt (PRef 1) demo_built = (Inl (External ''init_env failed''), demo_built)"
    by (simp add: broken_rt_def)
  have c1: "alfred_tw_env bare_rt demo_config demo_split (heap demo_imported) = (Inr 1, demo_heap)"
    by (simp add: bare_rt_def demo_imported_def init_state_def)
  have c2: "init_env bare_rt (PRef 1) demo_heap = (Inr (PRef 2), heap demo_bare)"
    by (simp add: bare_rt_def demo_rt_def demo_bare_def)
  have e1: "exc_text broken_rt (External ''init_env failed'') = ''init_env failed''"
    by (simp add: broken_rt_def demo_rt_def)
  have e2: "exc_text bare_rt AttributeError = ''error''"
    by (simp add: bare_rt_def demo_rt_def)
  have s1: "(demo_half\<lparr>out := []\<rparr>)\<lparr>out := out (init_state demo_heap) @
       [PDict [(PStr ''status'', PStr ''error''),
               (PStr ''error'', PStr (''Failed to initialize ALFWorld: '' @ ''init_env failed''))]]\<rparr> =
     demo_half"
    by (simp add: demo_half_def init_state_def error_response_def)
  have s2: "(demo_bare\<lparr>out := []\<rparr>)\<lparr>out := out (init_state demo_heap) @
       [PDict [(PStr ''status'', PStr ''error''),
               (PStr ''error'', PStr (''Failed to initialize ALFWorld: '' @ ''error''))]]\<rparr> =
     demo_bare"
    by (simp add: demo_bare_def init_state_def)
  note w1 = failed_init_effects [OF decodes_init_broken kind broken_init_body,
      where config = demo_config and split = demo_split and ?st2.0 = demo_imported and t = 1
        and ?h3.0 = demo_built and x = "External ''init_env failed''" and ?h4.0 = demo_built,
      unfolded e1 s1]
  note w2 = failed_init_effects [OF decodes_init_bare kind bare_init_body,
      where config = demo_config and split = demo_split and ?st2.0 = demo_imported and t = 1
        and ?h3.0 = demo_heap and v = "PRef 2" and ?h4.0 = "heap demo_bare",
      unfolded e2 s2]
  have h1: "handle_line broken_rt init_line (init_state demo_heap) = Some (demo_half, Continue)"
    using w1 by blast
  have h2: "handle_line bare_rt init_line (init_state demo_heap) = Some (demo_bare, Continue)"
    using w2 by blast
  have t1: "tw_env (demo_half\<lparr>out := []\<rparr>) = PRef 1"
    "(Construct, True) \<in> set (new_calls (init_state demo_heap) (demo_half\<lparr>out := []\<rparr>))"
    "env (demo_half\<lparr>out := []\<rparr>) = env (init_state demo_heap)"
    "(InitEnv, True) \<notin> set (new_calls (init_state demo_heap) (demo_half\<lparr>out := []\<rparr>))"
    "game_files (demo_half\<lparr>out := []\<rparr>) = game_files (init_state demo_heap)"
    using w1 broken_init_config b1 b2 by blast+
  have t2: "tw_env (demo_bare\<lparr>out := []\<rparr>) = PRef 1"
    "env (demo_bare\<lparr>out := []\<rparr>) = PRef 2"
    "(InitEnv, True) \<in> set (new_calls (init_state demo_heap) (demo_bare\<lparr>out := []\<rparr>))"
    "game_files (demo_bare\<lparr>out := []\<rparr>) = game_files (init_state demo_heap)"
    using w2 bare_init_config c1 c2 by blast+
  have o: "out demo_half =
     [PDict [(PStr ''status'', PStr ''error''),
             (PStr ''error'', PStr ''Failed to initialize ALFWorld: init_env failed'')]]"
    "heap demo_half = demo_built" "tw_env (init_state demo_heap) = PNone"
    "env (init_state demo_heap) = PNone"
    by (simp_all add: demo_half_def error_response_def init_state_def)
  from decodes_init_broken broken_init_body h1 o t1 b1 b2 decodes_init_bare bare_init_body h2 t2 c1 c2
    decodes_init_missing missing_init_body h3 n3 t3 o3
  show ?thesis by simp
qed

section \<open>The stored task catalog\<close>



section \<open>Narrowing the task set\<close>

text \<open>
  C3.  Let the delegate chain from \<open>e\<close> (at each layer the \<^verbatim>\<open>env\<close> attribute, else
  \<^verbatim>\<open>_wrapped_env\<close>) reach \<^verbatim>\<open>None\<close> within \<open>n\<close> steps, with layers \<open>ls\<close>.  Then
  \<^verbatim>\<open>set_game_files\<close> with the one-element list \<^verbatim>\<open>[g]\<close> returns, the chain is the same
  afterwards, and on every layer each of \<^verbatim>\<open>game_files\<close> and \<^verbatim>\<open>gameFiles\<close> that
  exists holds \<^verbatim>\<open>[g]\<close>.  In \<^verbatim>\<open>main\<close>, in any session the loop can reach in which the
  engine handle is present, a \<^verbatim>\<open>reset\<close> with a truthy \<^verbatim>\<open>game_file\<close> \<open>g\<close> narrows
  every layer of the chain from the handle in this way, sets \<^verbatim>\<open>tw_env.game_files\<close>, and
  then goes on as a \<^verbatim>\<open>reset\<close> without game file does from the narrowed heap: the
  engine computes the first observation after the narrowing is complete.
\<close>

theorem narrowing_reaches_every_layer:
  "(layers n h e = Some ls \<longrightarrow>
      (\<exists>h'. set_game_files h e (PList [g]) = Some h' \<and> layers n h' e = Some ls \<and>
            (\<forall>v \<in> set ls. narrowed h' (PList [g]) v))) \<and>
   (main rt h0 pre = Some (st, Continue) \<and> env st \<noteq> PNone \<and>
    dict_get cmd ''game_file'' PNone = g \<and> py_bool g \<and>
    layers n (heap st) (env st) = Some ls \<longrightarrow>
      (\<exists>h'. narrow_tasks cmd st = Some (None, st\<lparr>heap := h'\<rparr>) \<and>
            layers n h' (env st) = Some ls \<and>
            (\<forall>v \<in> set ls. narrowed h' (PList [g]) v) \<and>
            py_getattr h' (tw_env st) ''game_files'' = Some (PList [g]) \<and>
            do_reset rt cmd st = do_reset rt [] (st\<lparr>heap := h'\<rparr>)))"
proof (intro conjI impI)
  assume "layers n h e = Some ls"
  then show "\<exists>h'. set_game_files h e (PList [g]) = Some h' \<and> layers n h' e = Some ls \<and>
            (\<forall>v \<in> set ls. narrowed h' (PList [g]) v)"
    by (rule set_game_files_narrows)
next
  assume a: "main rt h0 pre = Some (st, Continue) \<and> env st \<noteq> PNone \<and>
    dict_get cmd ''game_file'' PNone = g \<and> py_bool g \<and>
    layers n (heap st) (env st) = Some ls"
  then have "session_inv st"
    unfolding main_def by (blast intro: main_loop_inv init_state_inv)
  with a obtain t where t: "tw_env st = PRef t" by (auto simp: session_inv_def)
  let ?files = "PList [g]"
  let ?h1 = "py_setattr (heap st) (PRef t) ''game_files'' ?files"
  let ?h' = "narrow_layers ?files ls ?h1"
  from a have l1: "layers n ?h1 (env st) = Some ls" by (simp add: layers_setattr_game_files)
  from set_game_files_layers [OF l1, of ?files]
  have s: "set_game_files ?h1 (env st) ?files = Some ?h'" .
  have n: "narrow_tasks cmd st = Some (None, st\<lparr>heap := ?h'\<rparr>)"
    using a t s by (simp add: narrow_tasks_def Let_def)
  have l: "layers n ?h' (env st) = Some ls" using l1 by (simp add: layers_narrow_layers)
  have nar: "\<forall>v \<in> set ls. narrowed ?h' ?files v" by (simp add: narrowed_narrow_layers)
  have "py_getattr ?h1 (PRef t) ''game_files'' = Some ?files"
    by (simp add: py_getattr_def py_setattr_def)
  then have tw: "py_getattr ?h' (tw_env st) ''game_files'' = Some ?files"
    using t by (simp add: getattr_narrow_layers_keep)
  have n0: "narrow_tasks [] (st\<lparr>heap := ?h'\<rparr>) = Some (None, st\<lparr>heap := ?h'\<rparr>)"
    by (simp add: narrow_tasks_def dict_get_def)
  have r: "do_reset rt cmd st = do_reset rt [] (st\<lparr>heap := ?h'\<rparr>)"
    using a by (simp add: do_reset_def reset_body_def n n0)
  from n l nar tw r
  show "\<exists>h'. narrow_tasks cmd st = Some (None, st\<lparr>heap := h'\<rparr>) \<and>
            layers n h' (env st) = Some ls \<and>
            (\<forall>v \<in> set ls. narrowed h' (PList [g]) v) \<and>
            py_getattr h' (tw_env st) ''game_files'' = Some (PList [g]) \<and>
            do_reset rt cmd st = do_reset rt [] (st\<lparr>heap := h'\<rparr>)"
    by blast
qed

text \<open>
  The example engine after \<^verbatim>\<open>init\<close>: the three layers at addresses 2, 3 and 1 hold the
  catalog of two tasks under \<^verbatim>\<open>gameFiles\<close> or \<^verbatim>\<open>game_files\<close>, and the one game file
  after the narrowing.
\<close>

theorem narrowing_reaches_every_layer_witness:
  "main demo_rt demo_heap [init_line] = Some (demo_ready, Continue) \<and>
   env demo_ready = PRef 2 \<and>
   layers (Suc (Suc (Suc 0))) (heap demo_ready) (env demo_ready) = Some [PRef 2, PRef 3, PRef 1] \<and>
   narrow_tasks [(PStr ''cmd'', PStr ''reset''), (PStr ''game_file'', PStr ''b.tw-pddl'')] demo_ready =
     Some (None, demo_ready\<lparr>heap := demo_narrowed\<rparr>) \<and>
   narrowed demo_narrowed (PList [PStr ''b.tw-pddl'']) (PRef 2) \<and>
   narrowed demo_narrowed (PList [PStr ''b.tw-pddl'']) (PRef 3) \<and>
   narrowed demo_narrowed (PList [PStr ''b.tw-pddl'']) (PRef 1) \<and>
   py_getattr (heap demo_ready) (PRef 2) ''gameFiles'' = Some demo_catalog \<and>
   py_getattr demo_narrowed (PRef 2) ''gameFiles'' = Some (PList [PStr ''b.tw-pddl'']) \<and>
   py_getattr demo_narrowed (PRef 3) ''game_files'' = Some (PList [PStr ''b.tw-pddl'']) \<and>
   py_getattr demo_narrowed (PRef 1) ''game_files'' = Some (PList [PStr ''b.tw-pddl''])"
proof -
  let ?cmd = "[(PStr ''cmd'', PStr ''reset''), (PStr ''game_file'', PStr ''b.tw-pddl'')]"
  have run: "main demo_rt demo_heap [init_line] = Some (demo_ready, Continue)"
    by (simp add: main_def demo_init_line)
  have e: "env demo_ready = PRef 2" by (simp add: demo_ready_def)
  have g: "dict_get ?cmd ''game_file'' PNone = PStr ''b.tw-pddl''" "py_bool (PStr ''b.tw-pddl'')"
    by (simp_all add: dict_get_def)
  from narrowing_reaches_every_layer [where rt = demo_rt and ?h0.0 = demo_heap and pre = "[init_line]"
      and st = demo_ready and cmd = ?cmd and g = "PStr ''b.tw-pddl''" and n = "Suc (Suc (Suc 0))"
      and ls = "[PRef 2, PRef 3, PRef 1]"]
    run e g demo_ready_layers
  obtain h' where h: "narrow_tasks ?cmd demo_ready = Some (None, demo_ready\<lparr>heap := h'\<rparr>)"
    and nar: "\<forall>v \<in> set [PRef 2, PRef 3, PRef 1]. narrowed h' (PList [PStr ''b.tw-pddl'']) v"
    by auto
  from h demo_narrow_tasks have "heap (demo_ready\<lparr>heap := h'\<rparr>) = heap (demo_ready\<lparr>heap := demo_narrowed\<rparr>)"
    by simp
  then have eq: "h' = demo_narrowed" by simp
  have val0: "py_getattr (heap demo_ready) (PRef 2) ''gameFiles'' = Some demo_catalog"
    by (simp add: py_getattr_def demo_ready_def demo_wrapped_def)
  have vals:
    "py_getattr demo_narrowed (PRef 2) ''gameFiles'' = Some (PList [PStr ''b.tw-pddl''])"
    "py_getattr demo_narrowed (PRef 3) ''game_files'' = Some (PList [PStr ''b.tw-pddl''])"
    "py_getattr demo_narrowed (PRef 1) ''game_files'' = Some (PList [PStr ''b.tw-pddl''])"
    unfolding demo_narrowed_def narrow_layers_def demo_files_def
    by (simp_all add: getattr_set_attrs py_hasattr_def task_attrs_def)
       (simp_all add: py_getattr_def py_setattr_def demo_wrapped_def demo_built_def demo_heap_def)
  from run e demo_ready_layers demo_narrow_tasks nar eq val0 vals show ?thesis by simp
qed

section \<open>The response to \<^verbatim>\<open>reset\<close>\<close>

text \<open>
  C4.  Let a \<^verbatim>\<open>reset\<close> command, with the engine handle present, be answered by a
  response without \<^verbatim>\<open>status\<close> field (it succeeded).  Then the engine's
  \<^verbatim>\<open>reset\<close> was called on the narrowed session and returned a pair of an observation
  and \<^verbatim>\<open>infos\<close>; the \<^verbatim>\<open>obs\<close> of the response is the text \<open>t\<close> that is the first
  element of the observation when the observation is a list or a tuple, and \<^verbatim>\<open>str\<close> of
  the observation otherwise; \<^verbatim>\<open>admissible_commands\<close> is the first element of
  \<^verbatim>\<open>infos.get("admissible_commands", [[]])\<close>; \<^verbatim>\<open>goal\<close> is the first line of the
  trimmed text; \<^verbatim>\<open>done\<close> is \<^verbatim>\<open>False\<close> and \<^verbatim>\<open>score\<close> is \<^verbatim>\<open>0\<close>.
\<close>

theorem reset_normalises:
  assumes "env st \<noteq> PNone" and "decodes rt raw cmd" and "cmd_kind cmd = PStr ''reset''"
    and "handle_line rt raw st = Some (st', c)" and "out st' = out st @ [resp]"
    and "py_get resp ''status'' PNone = Inr PNone"
  shows "\<exists>st1 result obs infos t batch adm.
           narrow_tasks cmd st = Some (None, st1) \<and>
           env_reset rt (env st1) (heap st1) = (Inr result, heap st') \<and>
           py_unpack 2 result = Inr [obs, infos] \<and>
           (if is_seq obs then (\<exists>rest. py_iter obs = Some (PStr t # rest)) else t = py_str rt obs) \<and>
           py_get infos ''admissible_commands'' (PList [PList []]) = Inr batch \<and>
           py_index0 batch = Inr adm \<and>
           resp = PDict [(PStr ''obs'', PStr t), (PStr ''admissible_commands'', adm),
                         (PStr ''goal'', PStr (first_line (py_strip t))),
                         (PStr ''done'', PBool False), (PStr ''score'', PInt 0)] \<and>
           c = Continue"
proof -
  from assms(2-4) handle_line_decodes [of rt raw cmd st]
  have d: "do_reset rt cmd st = Some st'" and c: "c = Continue"
    by (auto simp: dispatch_def cmd_kind_def)
  from d assms(1) obtain r st2 where b: "reset_body rt cmd st = Some (r, st2)"
    by (auto simp: do_reset_def split: option.splits)
  have "r = None"
  proof (rule ccontr)
    assume "r \<noteq> None"
    then obtain e where e: "r = Some e" by auto
    with reset_body_result [OF b] have "out st2 = out st" by simp
    with d b e assms(1) have "out st' = out st @ [error_response (''Reset failed: '' @ exc_text rt e)]"
      by (auto simp: do_reset_def)
    with assms(5) have "resp = error_response (''Reset failed: '' @ exc_text rt e)" by simp
    with assms(6) show False by (simp add: error_response_status)
  qed
  with d b assms(1) have st2: "st2 = st'" by (simp add: do_reset_def)
  from reset_body_result [OF b] \<open>r = None\<close> st2 obtain st1 result resp'
    where n: "narrow_tasks cmd st = Some (None, st1)"
      and r1: "fst (env_reset rt (env st1) (heap st1)) = Inr result"
      and r2: "heap st' = snd (env_reset rt (env st1) (heap st1))"
      and rr: "reset_response rt result = Inr resp'" and o: "out st' = out st @ [resp']"
    by auto
  from o assms(5) have same: "resp' = resp" by simp
  from r1 r2 have call: "env_reset rt (env st1) (heap st1) = (Inr result, heap st')"
    by (simp add: prod_eq_iff)
  from reset_response_cases [OF rr] obtain obs infos t adm
    where u: "py_unpack 2 result = Inr [obs, infos]"
      and ot: "obs_text_of rt obs = Inr (PStr t)"
      and ad: "admissible_of infos = Inr adm"
      and re: "resp' = PDict [(PStr ''obs'', PStr t), (PStr ''admissible_commands'', adm),
                         (PStr ''goal'', PStr (first_line (py_strip t))),
                         (PStr ''done'', PBool False), (PStr ''score'', PInt 0)]"
    by blast
  from obs_text_of_cases [OF ot]
  have o1: "if is_seq obs then (\<exists>rest. py_iter obs = Some (PStr t # rest)) else t = py_str rt obs"
    by (simp split: if_splits)
  from ad obtain batch where
    b1: "py_get infos ''admissible_commands'' (PList [PList []]) = Inr batch"
    and b2: "py_index0 batch = Inr adm"
    by (auto simp: admissible_of_def bind_exn_def split: sum.splits)
  from n call u o1 b1 b2 re same c show ?thesis by blast
qed

text \<open>
  On the example engine the observation is a batch of one text that starts with a line
  feed: the response carries the text as it is, and its first line after trimming as goal.
\<close>

theorem reset_normalises_witness:
  "env demo_ready = PRef 2 \<and>
   decodes demo_rt reset_b_line [(PStr ''cmd'', PStr ''reset''), (PStr ''game_file'', PStr ''b.tw-pddl'')] \<and>
   handle_line demo_rt reset_b_line demo_ready = Some (demo_after_reset, Continue) \<and>
   out demo_after_reset = out demo_ready @ [demo_reset_response] \<and>
   py_get demo_reset_response ''status'' PNone = Inr PNone \<and>
   env_reset demo_rt (PRef 2) demo_narrowed =
     (Inr (PTuple [PList [PStr demo_obs], demo_infos]), demo_narrowed) \<and>
   py_strip demo_obs = ''You are in a room.'' @ [CHR 0x0A] @ ''Your task is to: look.'' \<and>
   first_line (py_strip demo_obs) = ''You are in a room.'' \<and>
   demo_reset_response =
     PDict [(PStr ''obs'', PStr demo_obs),
            (PStr ''admissible_commands'', PList [PStr ''look'', PStr ''go to desk 1'']),
            (PStr ''goal'', PStr ''You are in a room.''),
            (PStr ''done'', PBool False), (PStr ''score'', PInt 0)]"
proof -
  let ?cmd = "[(PStr ''cmd'', PStr ''reset''), (PStr ''game_file'', PStr ''b.tw-pddl'')]"
  have e: "env demo_ready \<noteq> PNone" "env demo_ready = PRef 2" by (simp_all add: demo_ready_def)
  have k: "cmd_kind ?cmd = PStr ''reset''" by (simp add: cmd_kind_def dict_get_def)
  have o: "out demo_after_reset = out demo_ready @ [demo_reset_response]"
    by (simp add: demo_after_reset_def)
  have s: "py_get demo_reset_response ''status'' PNone = Inr PNone"
    by (simp add: demo_reset_response_def py_get_def dict_get_def)
  from reset_normalises [OF e(1) decodes_reset_b k demo_reset_b o s]
  obtain t where "demo_reset_response =
      PDict [(PStr ''obs'', PStr t), (PStr ''admissible_commands'', PList [PStr ''look'', PStr ''go to desk 1'']),
             (PStr ''goal'', PStr (first_line (py_strip t))),
             (PStr ''done'', PBool False), (PStr ''score'', PInt 0)]"
    by (auto simp: demo_reset_response_def)
  then have g: "first_line (py_strip demo_obs) = ''You are in a room.''"
    by (simp add: demo_reset_response_def)
  have r: "env_reset demo_rt (PRef 2) demo_narrowed =
     (Inr (PTuple [PList [PStr demo_obs], demo_infos]), demo_narrowed)"
    by (simp add: demo_rt_def)
  have st: "py_strip demo_obs = ''You are in a room.'' @ [CHR 0x0A] @ ''Your task is to: look.''"
    by (simp add: demo_strip_obs) (simp add: demo_obs_def)
  from e(2) decodes_reset_b demo_reset_b o s r st g show ?thesis
    by (simp add: demo_reset_response_def)
qed

section \<open>The response to \<^verbatim>\<open>step\<close>\<close>




section \<open>The mock's scenario\<close>

text \<open>
  C9.  In the mock, the lines \<^verbatim>\<open>init\<close>, \<^verbatim>\<open>reset\<close>, \<^verbatim>\<open>step\<close> with
  \<^verbatim>\<open>"go to desk 1"\<close>, \<^verbatim>\<open>"take mug 1 from desk 1"\<close>, \<^verbatim>\<open>"go to shelf 1"\<close> and
  \<^verbatim>\<open>"put mug 1 in/on shelf 1"\<close>, and \<^verbatim>\<open>shutdown\<close>, followed by any lines \<open>rest\<close>,
  produce in this order: \<^verbatim>\<open>{"status": "ok", "task_count": 3}\<close>; the reset response,
  whose \<^verbatim>\<open>obs\<close> starts with \<^verbatim>\<open>You are in the middle of a room\<close>, with \<^verbatim>\<open>done\<close> false
  and \<^verbatim>\<open>score\<close> 0; the script's entries for the four actions, of which the first has
  \<^verbatim>\<open>mug 1\<close> in its \<^verbatim>\<open>obs\<close> and \<^verbatim>\<open>done\<close> false, and the last has \<^verbatim>\<open>done\<close> true
  and \<^verbatim>\<open>score\<close> 1; and \<^verbatim>\<open>{"status": "ok"}\<close>, after which the loop has ended.  An
  action that can be hashed (every string, number, boolean and \<^verbatim>\<open>None\<close>) and is no
  key of the script, and an absent action, are answered by the default response.
\<close>

theorem mock_scenario:
  assumes "plain_cmd rt l_init ''init''" and "plain_cmd rt l_reset ''reset''"
    and "step_cmd rt l1 ''go to desk 1''" and "step_cmd rt l2 ''take mug 1 from desk 1''"
    and "step_cmd rt l3 ''go to shelf 1''" and "step_cmd rt l4 ''put mug 1 in/on shelf 1''"
    and "plain_cmd rt l_end ''shutdown''"
  shows "mock_main rt ([l_init, l_reset, l1, l2, l3, l4, l_end] @ rest) =
           ([PDict [(PStr ''status'', PStr ''ok''), (PStr ''task_count'', PInt 3)],
             mock_reset_response,
             scripted ''go to desk 1'', scripted ''take mug 1 from desk 1'',
             scripted ''go to shelf 1'', scripted ''put mug 1 in/on shelf 1'',
             PDict [(PStr ''status'', PStr ''ok'')]], Break) \<and>
         (\<exists>post. py_get mock_reset_response ''obs'' PNone =
                    Inr (PStr (''You are in the middle of a room'' @ post))) \<and>
         py_get mock_reset_response ''done'' PNone = Inr (PBool False) \<and>
         py_get mock_reset_response ''score'' PNone = Inr (PInt 0) \<and>
         (\<exists>pre post. py_get (scripted ''go to desk 1'') ''obs'' PNone =
                    Inr (PStr (pre @ ''mug 1'' @ post))) \<and>
         py_get (scripted ''go to desk 1'') ''done'' PNone = Inr (PBool False) \<and>
         py_get (scripted ''put mug 1 in/on shelf 1'') ''done'' PNone = Inr (PBool True) \<and>
         py_get (scripted ''put mug 1 in/on shelf 1'') ''score'' PNone = Inr (PInt 1) \<and>
         (hashable act \<and> act \<notin> fst ` set STEP_RESPONSES \<and>
          map_of cmd (PStr ''action'') = Some act \<longrightarrow> mock_step cmd = Inr DEFAULT_STEP) \<and>
         (map_of cmd (PStr ''action'') = None \<longrightarrow> mock_step cmd = Inr DEFAULT_STEP)"
proof -
  have run: "mock_main rt ([l_init, l_reset, l1, l2, l3, l4, l_end] @ rest) =
           ([init_response 3, mock_reset_response,
             scripted ''go to desk 1'', scripted ''take mug 1 from desk 1'',
             scripted ''go to shelf 1'', scripted ''put mug 1 in/on shelf 1'',
             ok_response], Break)"
    by (simp add: mock_main_def mock_plain [OF assms(1)] mock_plain [OF assms(2)]
        mock_plain [OF assms(7)] mock_step_cmd [OF assms(3)] mock_step_cmd [OF assms(4)]
        mock_step_cmd [OF assms(5)] mock_step_cmd [OF assms(6)])
  have obs0: "py_get mock_reset_response ''obs'' PNone =
      Inr (PStr (''You are in the middle of a room'' @
                 ''. Looking quickly around you, you see a desk 1, a shelf 1, and a drawer 1.'' @
                 [CHR 0x0A] @ ''Your task is to put a mug in shelf.''))"
    by (simp add: mock_reset_response_def py_get_def dict_get_def INITIAL_OBS_def)
  have obs1: "py_get (scripted ''go to desk 1'') ''obs'' PNone =
      Inr (PStr (''On the desk 1, you see a '' @ ''mug 1'' @ '' and a pen 1.''))"
    by (simp add: scripted_values step_entry_def py_get_def dict_get_def)
  have rest: "py_get mock_reset_response ''done'' PNone = Inr (PBool False)"
    "py_get mock_reset_response ''score'' PNone = Inr (PInt 0)"
    "py_get (scripted ''go to desk 1'') ''done'' PNone = Inr (PBool False)"
    "py_get (scripted ''put mug 1 in/on shelf 1'') ''done'' PNone = Inr (PBool True)"
    "py_get (scripted ''put mug 1 in/on shelf 1'') ''score'' PNone = Inr (PInt 1)"
    by (simp_all add: mock_reset_response_def scripted_values step_entry_def py_get_def dict_get_def)
  have c1: "mock_main rt ([l_init, l_reset, l1, l2, l3, l4, l_end] @ rest) =
           ([PDict [(PStr ''status'', PStr ''ok''), (PStr ''task_count'', PInt 3)],
             mock_reset_response,
             scripted ''go to desk 1'', scripted ''take mug 1 from desk 1'',
             scripted ''go to shelf 1'', scripted ''put mug 1 in/on shelf 1'',
             PDict [(PStr ''status'', PStr ''ok'')]], Break)"
    using run by (simp add: init_response_def ok_response_def)
  have c2: "\<exists>post. py_get mock_reset_response ''obs'' PNone =
                    Inr (PStr (''You are in the middle of a room'' @ post))"
    using obs0 by blast
  have c3: "\<exists>pre post. py_get (scripted ''go to desk 1'') ''obs'' PNone =
                    Inr (PStr (pre @ ''mug 1'' @ post))"
    using obs1 by blast
  have c4: "hashable act \<and> act \<notin> fst ` set STEP_RESPONSES \<and>
          map_of cmd (PStr ''action'') = Some act \<longrightarrow> mock_step cmd = Inr DEFAULT_STEP"
    by (blast intro: mock_step_fallback)
  have c5: "map_of cmd (PStr ''action'') = None \<longrightarrow> mock_step cmd = Inr DEFAULT_STEP"
    by (simp add: mock_step_default)
  show ?thesis
    apply (insert c1 c2 c3 c4 c5 rest)
    apply (intro conjI)
             apply assumption+
    done
qed

text \<open>The scenario on lines of JSON text, and the action \<^verbatim>\<open>"dance"\<close>.\<close>

theorem mock_scenario_witness:
  "mock_main demo_rt
     ([init_line, reset_line, step_action_line ''go to desk 1'',
       step_action_line ''take mug 1 from desk 1'', step_action_line ''go to shelf 1'',
       step_action_line ''put mug 1 in/on shelf 1'', shutdown_line] @ [list_line]) =
     ([PDict [(PStr ''status'', PStr ''ok''), (PStr ''task_count'', PInt 3)],
       mock_reset_response,
       step_entry ''On the desk 1, you see a mug 1 and a pen 1.''
         [''take mug 1 from desk 1'', ''take pen 1 from desk 1'', ''go to shelf 1'', ''go to drawer 1'']
         False 0,
       step_entry ''You pick up the mug 1 from the desk 1.''
         [''go to shelf 1'', ''go to drawer 1'', ''go to desk 1'', ''put mug 1 in/on shelf 1'',
          ''put mug 1 in/on drawer 1'']
         False 0,
       step_entry ''You arrive at shelf 1. On the shelf 1, you see nothing.''
         [''put mug 1 in/on shelf 1'', ''go to desk 1'', ''go to drawer 1'']
         False 0,
       step_entry ''You put the mug 1 in/on the shelf 1.'' [] True 1,
       PDict [(PStr ''status'', PStr ''ok'')]], Break) \<and>
   hashable (PStr ''dance'') \<and> PStr ''dance'' \<notin> fst ` set STEP_RESPONSES \<and>
   mock_step [(PStr ''cmd'', PStr ''step''), (PStr ''action'', PStr ''dance'')] = Inr DEFAULT_STEP"
proof -
  note sc = mock_scenario [OF demo_plain(1,2) demo_step_cmd demo_plain(3),
      where rest = "[list_line]" and act = "PStr ''dance''"
      and cmd = "[(PStr ''cmd'', PStr ''step''), (PStr ''action'', PStr ''dance'')]"]
  have d: "hashable (PStr ''dance'')" "PStr ''dance'' \<notin> fst ` set STEP_RESPONSES"
    "map_of [(PStr ''cmd'', PStr ''step''), (PStr ''action'', PStr ''dance'')] (PStr ''action'') =
       Some (PStr ''dance'')"
    by (simp_all add: STEP_RESPONSES_def)
  from sc d have "mock_step [(PStr ''cmd'', PStr ''step''), (PStr ''action'', PStr ''dance'')] =
      Inr DEFAULT_STEP" by blast
  with sc d show ?thesis by (simp add: scripted_values)
qed

end
